theory Spec2Isabelle
  imports Main "HOL-Library.Multiset"
begin

section \<open>WY MovieBox: the application state model of both script revisions\<close>

text \<open>
  The repository holds two revisions of one browser script: \<^verbatim>\<open>src/script.js\<close>, whose
  movies carry the \<^verbatim>\<open>id\<close> field of the JSON document, and \<^verbatim>\<open>src/unnamed/part_000\<close>, which
  synthesises the ids after the load (\<^verbatim>\<open>generateVideoIds\<close>) and reports through a modal
  alert. Functions that differ between the two take the revision as part of their
  environment; functions that are textually the same are modelled once.

  The global variables of the script and the parts of the page that the script reads back
  (\<^verbatim>\<open>querySelector\<close> on a class it has set) form one record, passed explicitly. A call
  either returns, or throws with the state it has reached: JavaScript keeps the mutations
  made before a throw.
\<close>

subsection \<open>Values\<close>

datatype version = ScriptJs | Part000

text \<open>
  JavaScript values as far as the script meets them: \<^verbatim>\<open>undefined\<close>, strings, arrays,
  objects, and the remaining JSON atoms (numbers, booleans, \<^verbatim>\<open>null\<close>) named by their
  canonical text.
\<close>

datatype jsval =
    Undefined
  | Atom string
  | Str string
  | Arr "jsval list"
  | Obj "(string \<times> jsval) list"

text \<open>Truthiness, as \<^verbatim>\<open>if (x)\<close> and \<^verbatim>\<open>!x\<close> decide it.\<close>

fun truthy :: "jsval \<Rightarrow> bool" where
  "truthy Undefined = False"
| "truthy (Atom a) = (a \<noteq> ''null'' \<and> a \<noteq> ''false'' \<and> a \<noteq> ''0'')"
| "truthy (Str s) = (s \<noteq> [])"
| "truthy (Arr xs) = True"
| "truthy (Obj kvs) = True"

text \<open>
  A movie object. \<open>movieId\<close> is the \<^verbatim>\<open>id\<close> property: \<open>None\<close> while the object has none
  (a raw entry of the JSON document in \<^verbatim>\<open>part_000\<close>). \<open>mtype\<close> is the \<^verbatim>\<open>type\<close> property.
\<close>

record movie =
  movieId :: "string option"
  title :: string
  thumb :: string
  src :: string
  mtype :: "string option"

text \<open>The value that \<^verbatim>\<open>movie.id\<close> evaluates to.\<close>

definition jsid :: "movie \<Rightarrow> jsval" where
  "jsid m = (case movieId m of None \<Rightarrow> Undefined | Some i \<Rightarrow> Str i)"

text \<open>
  The \<^verbatim>\<open>videos\<close> object: category keys with their arrays, listed in the order in which
  \<^verbatim>\<open>for (const category in videos)\<close> visits them. The keys of an object are distinct.
\<close>

type_synonym catalog = "(string \<times> movie list) list"

definition allMoviesOf :: "catalog \<Rightarrow> movie list" where
  "allMoviesOf vs = concat (map snd vs)"

subsection \<open>Number to string\<close>

text \<open>
  \<^verbatim>\<open>`${index}`\<close> for an array index: the decimal digits, most significant first, no
  leading zero.
\<close>

definition digit :: "nat \<Rightarrow> char" where
  "digit d = char_of (48 + d)"

fun decimal :: "nat \<Rightarrow> string" where
  "decimal n = (if n < 10 then [digit n] else decimal (n div 10) @ [digit (n mod 10)])"

declare decimal.simps [simp del]

subsection \<open>Id assignment (part_000)\<close>

text \<open>
  \<^verbatim>\<open>videos[category].forEach((movie, index) => { movie.id = `${category}-${index}`; })\<close>,
  written with the index of the first element as a parameter.
\<close>

fun assignFrom :: "string \<Rightarrow> nat \<Rightarrow> movie list \<Rightarrow> movie list" where
  "assignFrom category index [] = []"
| "assignFrom category index (movie # rest) =
     movie\<lparr>movieId := Some (category @ ''-'' @ decimal index)\<rparr>
       # assignFrom category (Suc index) rest"

text \<open>
  \<^verbatim>\<open>generateVideoIds\<close> on the catalog. Every value of a \<open>catalog\<close> is an array, so the
  guard \<^verbatim>\<open>Array.isArray(videos[category])\<close> holds for each key.
\<close>

definition generateVideoIdsCat :: "catalog \<Rightarrow> catalog" where
  "generateVideoIdsCat vs = map (\<lambda>(category, ms). (category, assignFrom category 0 ms)) vs"

subsection \<open>Array helpers\<close>

text \<open>\<^verbatim>\<open>xs.slice(start)\<close>: a negative start counts from the end, and both ends are clamped.\<close>

definition sliceFrom :: "int \<Rightarrow> 'a list \<Rightarrow> 'a list" where
  "sliceFrom start xs =
     (let len = int (length xs);
          k = (if start < 0 then max (len + start) 0 else min start len)
      in drop (nat k) xs)"

text \<open>
  \<^verbatim>\<open>findMovieById\<close>: the categories in iteration order, in each the first movie whose
  id is strictly equal to the argument. A movie id is a string or \<^verbatim>\<open>undefined\<close>, so
  strict equality with it is equality of values.
\<close>

fun findMovieById :: "catalog \<Rightarrow> jsval \<Rightarrow> movie option" where
  "findMovieById [] i = None"
| "findMovieById ((c, ms) # rest) i =
     (case find (\<lambda>m. jsid m = i) ms of
        Some movie \<Rightarrow> Some movie
      | None \<Rightarrow> findMovieById rest i)"

text \<open>
  The selection of \<^verbatim>\<open>displayTrending\<close>: \<^verbatim>\<open>allMovies = allMovies.concat(videos[category])\<close>
  for every key, then \<^verbatim>\<open>allMovies.slice(-10)\<close>.
\<close>

definition trendingMovies :: "catalog \<Rightarrow> movie list" where
  "trendingMovies vs = sliceFrom (- 10) (foldl (\<lambda>allMovies (c, ms). allMovies @ ms) [] vs)"

subsection \<open>Application state\<close>

type_synonym table = "string \<rightharpoonup> string"

text \<open>
  \<^verbatim>\<open>currentSettings\<close>: the four preferences, and the \<^verbatim>\<open>category\<close> property that
  \<^verbatim>\<open>showCategory\<close> of \<^verbatim>\<open>script.js\<close> adds to the object.
\<close>

record settings =
  language :: string
  theme :: string
  name :: string
  email :: string
  category :: "string option"

definition defaultSettings :: settings where
  "defaultSettings =
     \<lparr>language = ''myanmar'', theme = ''dark'', name = '''', email = '''', category = None\<rparr>"

text \<open>The values of the four inputs of the settings form.\<close>

record form =
  settingName :: string
  settingEmail :: string
  settingTheme :: string
  settingLanguage :: string

datatype nav = Home | Trending | Favorites | Profile

text \<open>
  The message of a modal alert: a text looked up in the translation table (\<open>None\<close> when
  the key is missing), or one of the fixed Burmese sentences of \<^verbatim>\<open>part_000\<close>, named here
  by what they say.
\<close>

datatype msg =
    Text "string option"
  | DataLoadError
  | SettingsSaved
  | SettingsSaveError
  | FavoriteRemoved string
  | FavoriteAdded string
  | MovieNotFound

text \<open>
  What the movie list region holds: the heading, the one-line notice of an empty list, a
  movie card (the movie, its favourite mark, the label of its play button), or the settings
  form with the values it shows.
\<close>

datatype node =
    Heading string
  | Para string
  | Card movie bool string
  | SettingsForm settings

record app =
  videos :: catalog
  translationTable :: "string \<rightharpoonup> table"
  favorites :: "jsval list"
  currentPlayingMovie :: "movie option"
  currentSettings :: settings
  storage :: "string \<rightharpoonup> string"
  activeNav :: "nav option"
  activeCategory :: "string option"
  moviesContainer :: "node list"
  menuHidden :: bool
  playerHidden :: bool
  headerSticky :: bool
  mainTitle :: "string option"
  currentTitle :: "string option"
  favBtnFilled :: bool
  favBtnShake :: bool
  alert :: "(string option \<times> msg) option"
  console :: "string list"
  iframeSrc :: string
  iframeHidden :: bool
  videoSrc :: string
  videoHidden :: bool

text \<open>
  \<open>storage\<close> is \<^verbatim>\<open>localStorage\<close>. \<open>activeNav\<close> is the navigation button that carries the
  class \<^verbatim>\<open>text-primary\<close>, \<open>activeCategory\<close> the \<^verbatim>\<open>data-category\<close> of the menu button that
  carries \<^verbatim>\<open>active-category\<close>; \<open>favBtnFilled\<close> is the filled heart of the favourite button,
  \<open>favBtnShake\<close> its \<^verbatim>\<open>shake-error\<close> cue (the timer that takes the cue away half a second
  later is not modelled). \<open>alert\<close> is the modal of \<^verbatim>\<open>showCustomAlert\<close> with its title and
  message, \<open>None\<close> while hidden. \<open>console\<close> collects the lines written to the console, the
  arguments of one call joined by a space (a caught error object passed along is not
  recorded). Colours and other style classes, the user id, the fullscreen switch and the
  closing of the alert touch none of what follows and are left out.

  What the script takes from outside itself: which revision it is, the JSON codec of the
  runtime (\<open>jsonParse\<close> gives \<open>None\<close> where \<^verbatim>\<open>JSON.parse\<close> throws), whether
  \<^verbatim>\<open>localStorage.setItem\<close> throws for a given content, key and value, and the
  \<^verbatim>\<open>data-category\<close> values of the menu buttons of the page. The page has the four
  navigation buttons and every element the script fetches by id, and \<^verbatim>\<open>localStorage\<close> can
  be read.
\<close>

record env =
  version :: version
  jsonParse :: "string \<Rightarrow> jsval option"
  jsonStringify :: "jsval \<Rightarrow> string"
  setItemThrows :: "(string \<rightharpoonup> string) \<Rightarrow> string \<Rightarrow> string \<Rightarrow> bool"
  menuBtns :: "string list"

datatype error = TypeError | QuotaExceededError

text \<open>A call returns (every function of the script returns \<^verbatim>\<open>undefined\<close>) or throws.\<close>

datatype outcome = Done app | Threw error app

fun final :: "outcome \<Rightarrow> app" where
  "final (Done s) = s"
| "final (Threw e s) = s"

definition andThen :: "outcome \<Rightarrow> (app \<Rightarrow> outcome) \<Rightarrow> outcome" where
  "andThen r f = (case r of Done s \<Rightarrow> f s | Threw e s \<Rightarrow> Threw e s)"

text \<open>\<^verbatim>\<open>try { ... } catch (e) { ... }\<close> with a handler that does not throw.\<close>

definition tryCatch :: "outcome \<Rightarrow> (app \<Rightarrow> app) \<Rightarrow> app" where
  "tryCatch r handler = (case r of Done s \<Rightarrow> s | Threw e s \<Rightarrow> handler s)"

definition logLine :: "string \<Rightarrow> app \<Rightarrow> app" where
  "logLine line s = s\<lparr>console := console s @ [line]\<rparr>"

definition showCustomAlert :: "string option \<Rightarrow> msg \<Rightarrow> app \<Rightarrow> app" where
  "showCustomAlert ttl message s = s\<lparr>alert := Some (ttl, message)\<rparr>"

definition setItem :: "env \<Rightarrow> string \<Rightarrow> string \<Rightarrow> app \<Rightarrow> outcome" where
  "setItem env k v s =
     (if setItemThrows env (storage s) k v then Threw QuotaExceededError s
      else Done (s\<lparr>storage := (storage s)(k \<mapsto> v)\<rparr>))"

text \<open>
  The \<^verbatim>\<open>translations\<close> object is held by the tables of its own keys. A property access
  also finds what every object inherits from \<^verbatim>\<open>Object.prototype\<close>: these are the names of
  its members. Each member is truthy (a function, or the prototype itself for
  \<^verbatim>\<open>__proto__\<close>) and has none of the properties that the script reads from a table under
  a fixed name (\<^verbatim>\<open>t.title\<close>, \<^verbatim>\<open>t.nowPlaying\<close>, ...), so it stands here as a table without
  entries.
\<close>

definition objectPrototype :: "string list" where
  "objectPrototype =
     [''constructor'', ''hasOwnProperty'', ''isPrototypeOf'', ''propertyIsEnumerable'',
      ''toLocaleString'', ''toString'', ''valueOf'', ''__proto__'',
      ''__defineGetter__'', ''__defineSetter__'', ''__lookupGetter__'', ''__lookupSetter__'']"

text \<open>\<^verbatim>\<open>translations[language]\<close>; \<open>None\<close> is \<^verbatim>\<open>undefined\<close>.\<close>

definition tableOf :: "(string \<rightharpoonup> table) \<Rightarrow> string \<Rightarrow> table option" where
  "tableOf translations lang =
     (case translations lang of
        Some t \<Rightarrow> Some t
      | None \<Rightarrow> if lang \<in> set objectPrototype then Some Map.empty else None)"

text \<open>\<^verbatim>\<open>translations[language] || translations.english\<close>\<close>

definition tbl :: "(string \<rightharpoonup> table) \<Rightarrow> string \<Rightarrow> table option" where
  "tbl translations lang =
     (case tableOf translations lang of
        Some t \<Rightarrow> Some t
      | None \<Rightarrow> tableOf translations ''english'')"

text \<open>A looked-up text inside a template literal.\<close>

definition tstr :: "string option \<Rightarrow> string" where
  "tstr v = (case v of None \<Rightarrow> ''undefined'' | Some txt \<Rightarrow> txt)"

subsection \<open>Loading\<close>

text \<open>
  What the fetch of \<^verbatim>\<open>videos_photos.json\<close> gives: nothing usable (the request fails, the
  status is not a success, the body does not parse), or a document with its \<^verbatim>\<open>videos\<close> and
  \<^verbatim>\<open>translations\<close> properties, each possibly absent.
\<close>

datatype fetched = Unavailable | Document "catalog option" "(string \<rightharpoonup> table) option"

definition loadDataFromJSON :: "env \<Rightarrow> fetched \<Rightarrow> app \<Rightarrow> app" where
  "loadDataFromJSON env f s =
     (case f of
        Document vs ts \<Rightarrow>
          logLine ''Data loaded successfully from JSON.''
            (s\<lparr>videos := (case vs of None \<Rightarrow> [] | Some c \<Rightarrow> c),
               translationTable := (case ts of None \<Rightarrow> Map.empty | Some t \<Rightarrow> t)\<rparr>)
      | Unavailable \<Rightarrow>
          (case version env of
             ScriptJs \<Rightarrow>
               logLine (''Failed to load JSON data. Ensure the 'videos_photos.json' file ''
                          @ ''exists and the path is correct.'') s
           | Part000 \<Rightarrow>
               showCustomAlert (Some ''Error'') DataLoadError
                 (logLine ''Failed to load JSON data. Ensure the 'videos_photos.json' file exists.''
                    s)))"

definition generateVideoIds :: "app \<Rightarrow> app" where
  "generateVideoIds s = s\<lparr>videos := generateVideoIdsCat (videos s)\<rparr>"

text \<open>
  \<^verbatim>\<open>{ ...defaultSettings, ...JSON.parse(storedSettings) }\<close>. The preferences are held as
  strings: the defaults are strings and \<^verbatim>\<open>saveSettings\<close>, the one writer of
  \<^verbatim>\<open>userSettings\<close>, stores the four values of the form. The spread of the code takes over
  whatever value a stored property has; a stored preference that is not a string lies
  outside this model, and \<open>strField\<close> reads it as absent. \<open>Obj\<close> lists the properties of
  the parsed object under distinct keys.
\<close>

definition strField :: "(string \<times> jsval) list \<Rightarrow> string \<Rightarrow> string \<Rightarrow> string" where
  "strField kvs k d = (case map_of kvs k of Some (Str v) \<Rightarrow> v | _ \<Rightarrow> d)"

fun spreadOver :: "settings \<Rightarrow> jsval \<Rightarrow> settings" where
  "spreadOver d (Obj kvs) =
     d\<lparr>language := strField kvs ''language'' (language d),
       theme := strField kvs ''theme'' (theme d),
       name := strField kvs ''name'' (name d),
       email := strField kvs ''email'' (email d),
       category := (case map_of kvs ''category'' of Some (Str v) \<Rightarrow> Some v | _ \<Rightarrow> category d)\<rparr>"
| "spreadOver d other = d"

definition loadSettings :: "env \<Rightarrow> app \<Rightarrow> app" where
  "loadSettings env s =
     (case storage s ''userSettings'' of
        None \<Rightarrow> s\<lparr>currentSettings := defaultSettings\<rparr>
      | Some storedSettings \<Rightarrow>
          if storedSettings = [] then s\<lparr>currentSettings := defaultSettings\<rparr>
          else (case jsonParse env storedSettings of
                  Some parsed \<Rightarrow> s\<lparr>currentSettings := spreadOver defaultSettings parsed\<rparr>
                | None \<Rightarrow>
                    (case version env of
                       ScriptJs \<Rightarrow>
                         logLine ''Error parsing settings from localStorage, using defaults.''
                           (s\<lparr>currentSettings := defaultSettings\<rparr>)
                     | Part000 \<Rightarrow> s\<lparr>currentSettings := defaultSettings\<rparr>)))"

text \<open>
  The favourites block of \<^verbatim>\<open>initializeApp\<close>. \<open>parseFavorites\<close> is the body of its
  \<^verbatim>\<open>try\<close>, with \<open>None\<close> where \<^verbatim>\<open>JSON.parse\<close> throws; \<open>loadFavorites\<close> adds the
  \<^verbatim>\<open>catch\<close>.
\<close>

definition parseFavorites :: "env \<Rightarrow> string option \<Rightarrow> jsval list option" where
  "parseFavorites env storedFavorites =
     (case storedFavorites of
        None \<Rightarrow> Some []
      | Some txt \<Rightarrow>
          if txt = [] then Some []
          else (case jsonParse env txt of
                  None \<Rightarrow> None
                | Some (Arr xs) \<Rightarrow> Some xs
                | Some other \<Rightarrow> Some []))"

definition loadFavorites :: "env \<Rightarrow> app \<Rightarrow> app" where
  "loadFavorites env s =
     (case parseFavorites env (storage s ''favorites'') of
        Some favs \<Rightarrow> s\<lparr>favorites := favs\<rparr>
      | None \<Rightarrow>
          (case version env of
             ScriptJs \<Rightarrow>
               logLine ''Error parsing favorites from localStorage, resetting.''
                 (s\<lparr>favorites := []\<rparr>)
           | Part000 \<Rightarrow> s\<lparr>favorites := []\<rparr>))"

subsection \<open>Rendering\<close>

text \<open>
  \<^verbatim>\<open>updateFavoriteButtonState\<close>. In \<^verbatim>\<open>script.js\<close> it has a second, optional argument and
  returns at once for a falsy id; in \<^verbatim>\<open>part_000\<close> a falsy id empties the heart.
\<close>

definition updateFavoriteButtonState :: "env \<Rightarrow> jsval \<Rightarrow> bool option \<Rightarrow> app \<Rightarrow> app" where
  "updateFavoriteButtonState env movieIdArg explicitState s =
     (case version env of
        ScriptJs \<Rightarrow>
          if \<not> truthy movieIdArg then s
          else s\<lparr>favBtnFilled :=
                   (case explicitState of
                      Some b \<Rightarrow> b
                    | None \<Rightarrow> movieIdArg \<in> set (favorites s))\<rparr>
      | Part000 \<Rightarrow>
          s\<lparr>favBtnFilled := (truthy movieIdArg \<and> movieIdArg \<in> set (favorites s))\<rparr>)"

text \<open>
  \<^verbatim>\<open>createMovieCard\<close> resolves the translation table itself and reads \<^verbatim>\<open>t.nowPlaying\<close>:
  with no table that read throws (\<open>None\<close>).
\<close>

definition createMovieCard :: "app \<Rightarrow> movie \<Rightarrow> node option" where
  "createMovieCard s movie =
     (case tbl (translationTable s) (language (currentSettings s)) of
        None \<Rightarrow> None
      | Some t \<Rightarrow> Some (Card movie (jsid movie \<in> set (favorites s)) (tstr (t ''nowPlaying''))))"

text \<open>\<^verbatim>\<open>list.forEach(movie => moviesContainer.appendChild(createMovieCard(movie)))\<close>\<close>

fun appendCards :: "app \<Rightarrow> movie list \<Rightarrow> outcome" where
  "appendCards s [] = Done s"
| "appendCards s (movie # rest) =
     (case createMovieCard s movie of
        None \<Rightarrow> Threw TypeError s
      | Some c \<Rightarrow> appendCards (s\<lparr>moviesContainer := moviesContainer s @ [c]\<rparr>) rest)"

text \<open>The loop of \<^verbatim>\<open>displayFavorites\<close> over the favourites, given as its second argument.\<close>

fun appendFavoriteCards :: "app \<Rightarrow> jsval list \<Rightarrow> outcome" where
  "appendFavoriteCards s [] = Done s"
| "appendFavoriteCards s (fav # rest) =
     (case findMovieById (videos s) fav of
        None \<Rightarrow> appendFavoriteCards s rest
      | Some movie \<Rightarrow>
          (case createMovieCard s movie of
             None \<Rightarrow> Threw TypeError s
           | Some c \<Rightarrow> appendFavoriteCards (s\<lparr>moviesContainer := moviesContainer s @ [c]\<rparr>) rest))"

text \<open>
  \<^verbatim>\<open>showCategory(category, clickedButton)\<close>; \<^verbatim>\<open>script.js\<close> also records the category in
  \<^verbatim>\<open>currentSettings\<close>. The categories are the \<^verbatim>\<open>data-category\<close> values of the menu buttons
  of the page. \<^verbatim>\<open>videos[category]\<close> and \<^verbatim>\<open>t[category]\<close> are looked up among the own keys:
  a category with the name of a member of \<^verbatim>\<open>Object.prototype\<close> is not modelled.
\<close>

definition showCategory :: "env \<Rightarrow> string \<Rightarrow> string option \<Rightarrow> app \<Rightarrow> outcome" where
  "showCategory env cat clickedButton s =
     (let s1 = s\<lparr>moviesContainer := []\<rparr>;
          s2 = (case version env of
                  ScriptJs \<Rightarrow> s1\<lparr>currentSettings := (currentSettings s1)\<lparr>category := Some cat\<rparr>\<rparr>
                | Part000 \<Rightarrow> s1);
          s3 = s2\<lparr>activeCategory := clickedButton\<rparr>;
          categoryVideos = (case map_of (videos s3) cat of None \<Rightarrow> [] | Some ms \<Rightarrow> ms)
      in case tbl (translationTable s) (language (currentSettings s)) of
           None \<Rightarrow> Threw TypeError s3
         | Some t \<Rightarrow>
             (let s4 = s3\<lparr>moviesContainer :=
                          [Heading (tstr (t ''selectCategory'') @ '': '' @ tstr (t cat))]\<rparr>
              in if categoryVideos = []
                 then Done (s4\<lparr>moviesContainer :=
                               moviesContainer s4 @ [Para (tstr (t ''noContent''))]\<rparr>)
                 else appendCards s4 categoryVideos))"

definition displayTrending :: "app \<Rightarrow> outcome" where
  "displayTrending s =
     (let s1 = s\<lparr>moviesContainer := []\<rparr>;
          selection = trendingMovies (videos s1)
      in case tbl (translationTable s1) (language (currentSettings s1)) of
           None \<Rightarrow> Threw TypeError s1
         | Some t \<Rightarrow>
             (let s2 = s1\<lparr>moviesContainer := [Heading (tstr (t ''trendingHeader''))]\<rparr>
              in if selection = []
                 then Done (s2\<lparr>moviesContainer :=
                               moviesContainer s2 @ [Para (tstr (t ''noContent''))]\<rparr>)
                 else appendCards s2 selection))"

definition displayFavorites :: "app \<Rightarrow> outcome" where
  "displayFavorites s =
     (let s1 = s\<lparr>moviesContainer := []\<rparr>
      in case tbl (translationTable s1) (language (currentSettings s1)) of
           None \<Rightarrow> Threw TypeError s1
         | Some t \<Rightarrow>
             (let s2 = s1\<lparr>moviesContainer := [Heading (tstr (t ''favoritesHeader''))]\<rparr>
              in if favorites s2 = []
                 then Done (s2\<lparr>moviesContainer :=
                               moviesContainer s2 @ [Para (tstr (t ''noFavorites''))]\<rparr>)
                 else appendFavoriteCards s2 (favorites s2)))"

text \<open>
  \<^verbatim>\<open>displayProfileSettings\<close> reads the table (\<^verbatim>\<open>t.themeDark\<close>) before it touches the page.
\<close>

definition displayProfileSettings :: "app \<Rightarrow> outcome" where
  "displayProfileSettings s =
     (case tbl (translationTable s) (language (currentSettings s)) of
        None \<Rightarrow> Threw TypeError s
      | Some t \<Rightarrow> Done (s\<lparr>moviesContainer := [SettingsForm (currentSettings s)]\<rparr>))"

definition applyLanguage :: "env \<Rightarrow> string \<Rightarrow> app \<Rightarrow> outcome" where
  "applyLanguage env lang s =
     (case tbl (translationTable s) lang of
        None \<Rightarrow> Threw TypeError s
      | Some t \<Rightarrow>
          (let s1 = s\<lparr>mainTitle := t ''title'',
                      currentTitle :=
                        (case currentPlayingMovie s of
                           None \<Rightarrow> t ''selectMovie''
                         | Some movie \<Rightarrow> Some (tstr (t ''nowPlaying'') @ '': '' @ title movie))\<rparr>
           in case version env of
                ScriptJs \<Rightarrow> Done s1
              | Part000 \<Rightarrow>
                  Done (updateFavoriteButtonState env
                          (case currentPlayingMovie s1 of
                             None \<Rightarrow> Atom ''null''
                           | Some movie \<Rightarrow> jsid movie)
                          None s1)))"

definition applySettings :: "env \<Rightarrow> app \<Rightarrow> outcome" where
  "applySettings env s =
     andThen (applyLanguage env (language (currentSettings s)) s) (\<lambda>s1.
       case activeNav s1 of
         None \<Rightarrow> Done s1
       | Some Home \<Rightarrow>
           (case activeCategory s1 of
              None \<Rightarrow> Done s1
            | Some c \<Rightarrow> showCategory env c (Some c) s1)
       | Some Trending \<Rightarrow> displayTrending s1
       | Some Favorites \<Rightarrow> displayFavorites s1
       | Some Profile \<Rightarrow> displayProfileSettings s1)"

definition changeNav :: "env \<Rightarrow> nav \<Rightarrow> app \<Rightarrow> outcome" where
  "changeNav env btn s =
     (let s1 = s\<lparr>activeNav := Some btn, moviesContainer := []\<rparr>
      in case btn of
           Home \<Rightarrow>
             (let s2 = s1\<lparr>menuHidden := False, playerHidden := False, headerSticky := True\<rparr>;
                  activeCategoryBtn =
                    (case activeCategory s2 of
                       Some c \<Rightarrow> Some c
                     | None \<Rightarrow> if ''action'' \<in> set (menuBtns env) then Some ''action'' else None)
              in case activeCategoryBtn of
                   None \<Rightarrow> Done s2
                 | Some c \<Rightarrow> showCategory env c (Some c) s2)
         | Trending \<Rightarrow>
             displayTrending (s1\<lparr>menuHidden := True, playerHidden := False, headerSticky := True\<rparr>)
         | Favorites \<Rightarrow>
             displayFavorites (s1\<lparr>menuHidden := True, playerHidden := False, headerSticky := True\<rparr>)
         | Profile \<Rightarrow>
             displayProfileSettings
               (s1\<lparr>menuHidden := True, playerHidden := True, headerSticky := False\<rparr>))"

subsection \<open>Start-up\<close>

text \<open>
  \<^verbatim>\<open>initializeApp\<close>. In \<^verbatim>\<open>part_000\<close> it awaits the load and assigns the ids first; in
  \<^verbatim>\<open>script.js\<close> the load is awaited by the \<^verbatim>\<open>DOMContentLoaded\<close> listener, which then
  calls \<^verbatim>\<open>initializeApp\<close> (\<open>startup\<close>), and nothing assigns ids.
\<close>

definition initializeApp :: "env \<Rightarrow> fetched \<Rightarrow> app \<Rightarrow> outcome" where
  "initializeApp env f s =
     (let s1 = (case version env of
                  ScriptJs \<Rightarrow> s
                | Part000 \<Rightarrow> generateVideoIds (loadDataFromJSON env f s));
          s2 = loadSettings env s1;
          s3 = loadFavorites env s2
      in andThen (applySettings env s3) (changeNav env Home))"

definition startup :: "env \<Rightarrow> fetched \<Rightarrow> app \<Rightarrow> outcome" where
  "startup env f s =
     (case version env of
        ScriptJs \<Rightarrow> initializeApp env f (loadDataFromJSON env f s)
      | Part000 \<Rightarrow> initializeApp env f s)"

subsection \<open>Commands\<close>

definition settingsJson :: "form \<Rightarrow> jsval" where
  "settingsJson fv =
     Obj [(''name'', Str (settingName fv)), (''email'', Str (settingEmail fv)),
          (''theme'', Str (settingTheme fv)), (''language'', Str (settingLanguage fv))]"

text \<open>\<^verbatim>\<open>{ ...currentSettings, ...newSettings }\<close>\<close>

definition mergeSettings :: "settings \<Rightarrow> form \<Rightarrow> settings" where
  "mergeSettings cur fv =
     cur\<lparr>name := settingName fv, email := settingEmail fv,
         theme := settingTheme fv, language := settingLanguage fv\<rparr>"

text \<open>
  \<^verbatim>\<open>window.saveSettings\<close>, called when the settings form is submitted: the values of its
  four inputs are the argument. The write, \<^verbatim>\<open>applySettings\<close>, \<^verbatim>\<open>changeNav\<close> and, in
  \<^verbatim>\<open>part_000\<close>, the alert stand in one \<^verbatim>\<open>try\<close> block.
\<close>

definition saveSettings :: "env \<Rightarrow> form \<Rightarrow> app \<Rightarrow> app" where
  "saveSettings env fv s =
     tryCatch
       (andThen (setItem env ''userSettings'' (jsonStringify env (settingsJson fv)) s) (\<lambda>s1.
        andThen (applySettings env (s1\<lparr>currentSettings := mergeSettings (currentSettings s1) fv\<rparr>))
          (\<lambda>s2.
        andThen (changeNav env Home s2) (\<lambda>s3.
          case version env of
            ScriptJs \<Rightarrow> Done s3
          | Part000 \<Rightarrow>
              (case tableOf (translationTable s3) (language (currentSettings s3)) of
                 None \<Rightarrow> Threw TypeError s3
               | Some t \<Rightarrow> Done (showCustomAlert (t ''saveSettings'') SettingsSaved s3))))))
       (case version env of
          ScriptJs \<Rightarrow> logLine ''Error saving settings to localStorage:''
        | Part000 \<Rightarrow> showCustomAlert (Some ''Error'') SettingsSaveError)"

definition saveFavoritesToLocalStorage :: "env \<Rightarrow> app \<Rightarrow> app" where
  "saveFavoritesToLocalStorage env s =
     tryCatch (setItem env ''favorites'' (jsonStringify env (Arr (favorites s))) s)
       (case version env of
          ScriptJs \<Rightarrow> logLine ''Error saving favorites to localStorage:''
        | Part000 \<Rightarrow> logLine ''Error saving favorites:'')"

text \<open>
  \<^verbatim>\<open>window.toggleFavorite\<close>. It has no parameter: the id is that of the movie playing.
  \<^verbatim>\<open>script.js\<close> tests with \<^verbatim>\<open>includes\<close> and removes with \<^verbatim>\<open>filter\<close>; \<^verbatim>\<open>part_000\<close> tests with
  \<^verbatim>\<open>indexOf\<close> and removes the element at that index with \<^verbatim>\<open>splice\<close>.
\<close>

definition rerenderFavorites :: "app \<Rightarrow> outcome" where
  "rerenderFavorites s = (if activeNav s = Some Favorites then displayFavorites s else Done s)"

definition toggleFavorite :: "env \<Rightarrow> app \<Rightarrow> outcome" where
  "toggleFavorite env s =
     (case version env of
        ScriptJs \<Rightarrow>
          (case currentPlayingMovie s of
             None \<Rightarrow> Done (s\<lparr>favBtnShake := True\<rparr>)
           | Some movie \<Rightarrow>
               (let movieIdV = jsid movie;
                    isFavorite = movieIdV \<in> set (favorites s);
                    s1 = (if \<not> isFavorite
                          then s\<lparr>favorites := favorites s @ [movieIdV]\<rparr>
                          else s\<lparr>favorites := filter (\<lambda>i. i \<noteq> movieIdV) (favorites s)\<rparr>);
                    s2 = saveFavoritesToLocalStorage env s1;
                    s3 = updateFavoriteButtonState env movieIdV (Some (\<not> isFavorite)) s2
                in rerenderFavorites s3))
      | Part000 \<Rightarrow>
          (case currentPlayingMovie s of
             None \<Rightarrow>
               (case tbl (translationTable s) (language (currentSettings s)) of
                  None \<Rightarrow> Threw TypeError s
                | Some t \<Rightarrow>
                    Done (showCustomAlert (Some ''Favorite'')
                            (Text (t ''selectMovieForFavorite'')) s))
           | Some movie \<Rightarrow>
               (let movieIdV = jsid movie;
                    s1 = (if movieIdV \<in> set (favorites s)
                          then showCustomAlert (Some ''Favorite'') (FavoriteRemoved (title movie))
                                 (s\<lparr>favorites := remove1 movieIdV (favorites s)\<rparr>)
                          else showCustomAlert (Some ''Favorite'') (FavoriteAdded (title movie))
                                 (s\<lparr>favorites := favorites s @ [movieIdV]\<rparr>));
                    s2 = saveFavoritesToLocalStorage env s1;
                    s3 = updateFavoriteButtonState env movieIdV None s2
                in rerenderFavorites s3)))"

text \<open>
  \<^verbatim>\<open>window.playVideo(event, movieId)\<close>; the card passes the id as a string literal. The
  promise of \<^verbatim>\<open>videoPlayer.play()\<close> settles later and is not modelled.
\<close>

definition showNowPlaying :: "env \<Rightarrow> movie \<Rightarrow> app \<Rightarrow> outcome" where
  "showNowPlaying env movie s =
     (case tbl (translationTable s) (language (currentSettings s)) of
        None \<Rightarrow> Threw TypeError s
      | Some t \<Rightarrow>
          Done (updateFavoriteButtonState env (jsid movie) None
                  (s\<lparr>currentTitle := Some (tstr (t ''nowPlaying'') @ '': '' @ title movie)\<rparr>)))"

definition playVideo :: "env \<Rightarrow> string \<Rightarrow> app \<Rightarrow> outcome" where
  "playVideo env movieIdArg s =
     (case findMovieById (videos s) (Str movieIdArg) of
        Some movie \<Rightarrow>
          (let s1 = s\<lparr>currentPlayingMovie := Some movie\<rparr>
           in case version env of
                ScriptJs \<Rightarrow>
                  if mtype movie = Some ''iframe''
                  then showNowPlaying env movie
                         (logLine (''Playing via Iframe: '' @ src movie)
                            (s1\<lparr>videoSrc := '''', videoHidden := True,
                                iframeHidden := False, iframeSrc := src movie\<rparr>))
                  else showNowPlaying env movie
                         (logLine (''Playing via HTML5 Video: '' @ src movie)
                            (s1\<lparr>iframeSrc := '''', iframeHidden := True,
                                videoHidden := False, videoSrc := src movie\<rparr>))
              | Part000 \<Rightarrow> showNowPlaying env movie (s1\<lparr>iframeSrc := src movie\<rparr>))
      | None \<Rightarrow>
          (case version env of
             ScriptJs \<Rightarrow> Done (logLine (''Movie not found: '' @ movieIdArg) s)
           | Part000 \<Rightarrow> Done (showCustomAlert (Some ''Error'') MovieNotFound s)))"

text \<open>
  The list a toggle leaves: the id appended when it was absent; when it was present,
  \<^verbatim>\<open>filter\<close> takes away every occurrence and \<^verbatim>\<open>splice\<close> the first.
\<close>

definition toggled :: "version \<Rightarrow> jsval \<Rightarrow> jsval list \<Rightarrow> jsval list" where
  "toggled v i favs =
     (if i \<in> set favs
      then (case v of ScriptJs \<Rightarrow> filter (\<lambda>x. x \<noteq> i) favs | Part000 \<Rightarrow> remove1 i favs)
      else favs @ [i])"

text \<open>
  What no rendering writes: the catalog, the tables, the favourites, the movie playing, the
  storage and the four preferences.
\<close>

definition sameData :: "app \<Rightarrow> app \<Rightarrow> bool" where
  "sameData s s' \<longleftrightarrow>
     videos s' = videos s \<and> translationTable s' = translationTable s
     \<and> favorites s' = favorites s \<and> currentPlayingMovie s' = currentPlayingMovie s
     \<and> storage s' = storage s
     \<and> language (currentSettings s') = language (currentSettings s)
     \<and> theme (currentSettings s') = theme (currentSettings s)
     \<and> name (currentSettings s') = name (currentSettings s)
     \<and> email (currentSettings s') = email (currentSettings s)"

text \<open>The state in which \<^verbatim>\<open>applySettings\<close> is called after a write that went through.\<close>

definition written :: "env \<Rightarrow> form \<Rightarrow> app \<Rightarrow> app" where
  "written env fv s =
     s\<lparr>storage := (storage s)(''userSettings'' \<mapsto> jsonStringify env (settingsJson fv)),
       currentSettings := mergeSettings (currentSettings s) fv\<rparr>"

subsection \<open>Example data\<close>

text \<open>
  The catalog \<^verbatim>\<open>{action: [{title: "A"}, {title: "B"}], drama: [{title: "C"}]}\<close>, entries
  without an \<^verbatim>\<open>id\<close>.
\<close>

definition rawMovie :: "string \<Rightarrow> movie" where
  "rawMovie t = \<lparr>movieId = None, title = t, thumb = '''', src = '''', mtype = None\<rparr>"

definition exampleCatalog :: catalog where
  "exampleCatalog =
     [(''action'', [rawMovie ''A'', rawMovie ''B'']), (''drama'', [rawMovie ''C''])]"

text \<open>The first movie of that catalog once it has its id.\<close>

definition movieA :: movie where
  "movieA = (rawMovie ''A'')\<lparr>movieId := Some ''action-0''\<rparr>"

definition exampleTable :: table where
  "exampleTable =
     map_of [(''title'', ''WY MovieBox''), (''selectMovie'', ''Select a movie''),
             (''nowPlaying'', ''Now Playing''), (''selectCategory'', ''Category''),
             (''action'', ''Action''), (''favoritesHeader'', ''Favorites''),
             (''noFavorites'', ''No favorites yet''), (''trendingHeader'', ''Trending''),
             (''noContent'', ''No content''), (''saveSettings'', ''Save''),
             (''selectMovieForFavorite'', ''Select a movie first'')]"

text \<open>
  A page on which nothing has been rendered, no data is loaded and the storage is empty.
\<close>

definition emptyPage :: app where
  "emptyPage =
     \<lparr>videos = [], translationTable = Map.empty, favorites = [],
      currentPlayingMovie = None, currentSettings = defaultSettings, storage = Map.empty,
      activeNav = None, activeCategory = None, moviesContainer = [],
      menuHidden = False, playerHidden = False, headerSticky = True,
      mainTitle = None, currentTitle = None, favBtnFilled = False, favBtnShake = False,
      alert = None, console = [],
      iframeSrc = '''', iframeHidden = False, videoSrc = '''', videoHidden = False\<rparr>"

text \<open>
  The example catalog with its ids and an English table loaded, the first movie playing.
\<close>

definition loadedPage :: app where
  "loadedPage =
     emptyPage\<lparr>videos := generateVideoIdsCat exampleCatalog,
               translationTable := map_of [(''english'', exampleTable)],
               currentPlayingMovie := Some movieA\<rparr>"

text \<open>
  A codec for the examples: it reads the few texts below and rejects every other text as
  \<^verbatim>\<open>JSON.parse\<close> rejects a malformed one; it writes strings without escapes, and arrays
  and objects of strings.
\<close>

definition exampleParse :: "string \<Rightarrow> jsval option" where
  \<open>exampleParse =
     map_of [(''[]'', Arr []), (''["action-0"]'', Arr [Str ''action-0'']),
             (''["gone-7","action-1"]'', Arr [Str ''gone-7'', Str ''action-1'']),
             (''{}'', Obj []), (''7'', Atom ''7''), (''null'', Atom ''null'')]\<close>

fun commaJoin :: "string list \<Rightarrow> string" where
  "commaJoin [] = []"
| "commaJoin [x] = x"
| "commaJoin (x # y # rest) = x @ '','' @ commaJoin (y # rest)"

definition quoted :: "jsval \<Rightarrow> string" where
  \<open>quoted x = (case x of Str v \<Rightarrow> ''"'' @ v @ ''"'' | _ \<Rightarrow> ''null'')\<close>

definition exampleStringify :: "jsval \<Rightarrow> string" where
  "exampleStringify j =
     (case j of
        Arr xs \<Rightarrow> ''['' @ commaJoin (map quoted xs) @ '']''
      | Obj kvs \<Rightarrow>
          ''{'' @ commaJoin (map (\<lambda>(k, v). quoted (Str k) @ '':'' @ quoted v) kvs) @ ''}''
      | other \<Rightarrow> quoted other)"

text \<open>A browser whose storage accepts every write, and one whose storage is full.\<close>

definition exampleEnv :: "version \<Rightarrow> env" where
  "exampleEnv v =
     \<lparr>version = v, jsonParse = exampleParse, jsonStringify = exampleStringify,
      setItemThrows = (\<lambda>content k value. False), menuBtns = [''action'', ''drama'']\<rparr>"

definition fullStorageEnv :: "version \<Rightarrow> env" where
  "fullStorageEnv v = (exampleEnv v)\<lparr>setItemThrows := (\<lambda>content k value. True)\<rparr>"

text \<open>Further states of the loaded page.\<close>

definition movieB :: movie where
  "movieB = (rawMovie ''B'')\<lparr>movieId := Some ''action-1''\<rparr>"

definition movieC :: movie where
  "movieC = (rawMovie ''C'')\<lparr>movieId := Some ''drama-0''\<rparr>"

definition staleFavorites :: app where
  "staleFavorites = loadedPage\<lparr>favorites := [Str ''gone-7'', Str ''action-1'', Str ''action-0'']\<rparr>"

definition twoFavorites :: app where
  "twoFavorites = loadedPage\<lparr>favorites := [Str ''action-0'', Str ''drama-0'']\<rparr>"

definition nothingPlaying :: app where
  "nothingPlaying = loadedPage\<lparr>currentPlayingMovie := None\<rparr>"


text \<open>The empty page with a text stored under \<^verbatim>\<open>favorites\<close>.\<close>

definition withStoredFavorites :: "string \<Rightarrow> app" where
  "withStoredFavorites stored = emptyPage\<lparr>storage := [''favorites'' \<mapsto> stored]\<rparr>"

text \<open>
  A page whose document brought a Burmese table only, showing the settings form, and the
  form filled in as \<^verbatim>\<open>{language: "english", theme: "light", name: "", email: ""}\<close>.
\<close>

definition burmeseOnly :: app where
  "burmeseOnly =
     loadedPage\<lparr>translationTable := map_of [(''myanmar'', exampleTable)],
                activeNav := Some Profile\<rparr>"

definition settingsShown :: app where
  "settingsShown = loadedPage\<lparr>activeNav := Some Profile\<rparr>"

definition englishLight :: form where
  "englishLight =
     \<lparr>settingName = '''', settingEmail = '''', settingTheme = ''light'',
      settingLanguage = ''english''\<rparr>"

text \<open>
  A document with the example catalog and an English table, and the state in which
  \<^verbatim>\<open>initializeApp\<close> of \<^verbatim>\<open>part_000\<close> calls \<^verbatim>\<open>applySettings\<close> when it starts from
  the empty page with that document.
\<close>

definition exampleDocument :: fetched where
  "exampleDocument = Document (Some exampleCatalog) (Some (map_of [(''english'', exampleTable)]))"

definition started :: app where
  "started =
     emptyPage\<lparr>videos := generateVideoIdsCat exampleCatalog,
               translationTable := map_of [(''english'', exampleTable)],
               console := [''Data loaded successfully from JSON.'']\<rparr>"

text \<open>
  A movie whose \<^verbatim>\<open>id\<close> in the JSON document is the empty string, playing on the loaded
  page.
\<close>

definition blankId :: movie where
  "blankId = (rawMovie ''D'')\<lparr>movieId := Some ''''\<rparr>"

definition blankIdPlaying :: app where
  "blankIdPlaying = loadedPage\<lparr>currentPlayingMovie := Some blankId\<rparr>"

text \<open>
  The state in which the start-up of \<^verbatim>\<open>part_000\<close> ends when the fetch has failed, and the
  one in which it ends when the document has the example catalog and no \<^verbatim>\<open>translations\<close>
  property while the storage holds the favourite \<^verbatim>\<open>action-0\<close>.
\<close>

definition failedLoad :: app where
  "failedLoad =
     emptyPage\<lparr>alert := Some (Some ''Error'', DataLoadError),
               console := [''Failed to load JSON data. Ensure the 'videos_photos.json' file exists.'']\<rparr>"

definition untranslated :: app where
  \<open>untranslated =
     emptyPage\<lparr>videos := generateVideoIdsCat exampleCatalog,
               favorites := [Str ''action-0''],
               storage := [''favorites'' \<mapsto> ''["action-0"]''],
               console := [''Data loaded successfully from JSON.'']\<rparr>\<close>

section \<open>Auxiliary facts\<close>

subsection \<open>Decimal numerals are injective and contain no hyphen\<close>

lemma digit_inj: "a < 10 \<Longrightarrow> b < 10 \<Longrightarrow> digit a = digit b \<Longrightarrow> a = b"
proof -
  assume a: "a < 10" and b: "b < 10" and e: "digit a = digit b"
  from e have "of_char (digit a) = (of_char (digit b) :: nat)" by simp
  with a b show "a = b" by (simp add: digit_def)
qed

lemma digit_not_hyphen: "d < 10 \<Longrightarrow> digit d \<noteq> CHR ''-''"
proof
  assume d: "d < 10" and e: "digit d = CHR ''-''"
  from e have "of_char (digit d) = (of_char (CHR ''-'') :: nat)" by simp
  with d show False by (simp add: digit_def)
qed

lemma decimal_small: "n < 10 \<Longrightarrow> decimal n = [digit n]"
  by (simp add: decimal.simps)

lemma decimal_large: "\<not> n < 10 \<Longrightarrow> decimal n = decimal (n div 10) @ [digit (n mod 10)]"
  by (subst decimal.simps) simp

lemma decimal_nonempty: "decimal n \<noteq> []"
  by (cases "n < 10") (simp_all add: decimal_small decimal_large)

lemma decimal_no_hyphen: "CHR ''-'' \<notin> set (decimal n)"
proof (induction n rule: decimal.induct)
  case (1 n)
  show ?case
  proof (cases "n < 10")
    case True
    then show ?thesis using digit_not_hyphen [of n] by (auto simp: decimal_small)
  next
    case False
    have "n mod 10 < 10" by simp
    then have "digit (n mod 10) \<noteq> CHR ''-''" by (rule digit_not_hyphen)
    with False "1.IH" show ?thesis by (auto simp: decimal_large)
  qed
qed

lemma decimal_inj: "decimal m = decimal n \<Longrightarrow> m = n"
proof (induction m arbitrary: n rule: decimal.induct)
  case (1 m)
  show ?case
  proof (cases "m < 10")
    case mS: True
    show ?thesis
    proof (cases "n < 10")
      case True
      with mS "1.prems" show ?thesis by (simp add: decimal_small digit_inj)
    next
      case False
      with mS "1.prems" have "decimal (n div 10) = []"
        by (simp add: decimal_small decimal_large)
      then show ?thesis by (simp add: decimal_nonempty)
    qed
  next
    case mL: False
    show ?thesis
    proof (cases "n < 10")
      case True
      with mL "1.prems" have "decimal (m div 10) = []"
        by (simp add: decimal_small decimal_large)
      then show ?thesis by (simp add: decimal_nonempty)
    next
      case False
      with mL "1.prems" have e: "decimal (m div 10) = decimal (n div 10)"
        and d: "digit (m mod 10) = digit (n mod 10)"
        by (simp_all add: decimal_large)
      from e mL have q: "m div 10 = n div 10" by (rule "1.IH" [rotated])
      have "m mod 10 < 10" "n mod 10 < 10" by simp_all
      with d have r: "m mod 10 = n mod 10" by (blast intro: digit_inj)
      have "m = 10 * (m div 10) + m mod 10" by simp
      also have "\<dots> = 10 * (n div 10) + n mod 10" using q r by simp
      also have "\<dots> = n" by simp
      finally show ?thesis .
    qed
  qed
qed

lemma digit_table:
  "digit 0 = CHR ''0''" "digit (Suc 0) = CHR ''1''" "digit 2 = CHR ''2''" "digit 3 = CHR ''3''"
  "digit 4 = CHR ''4''" "digit 5 = CHR ''5''" "digit 6 = CHR ''6''" "digit 7 = CHR ''7''"
  "digit 8 = CHR ''8''" "digit 9 = CHR ''9''"
  by code_simp+

subsection \<open>Synthesised ids determine category and index\<close>

lemma hyphen_split:
  assumes "CHR ''-'' \<notin> set u" "CHR ''-'' \<notin> set v" "a @ ''-'' @ u = b @ ''-'' @ v"
  shows "a = b \<and> u = v"
proof -
  from assms(3) have "rev (a @ ''-'' @ u) = rev (b @ ''-'' @ v)" by simp
  then have e: "rev u @ CHR ''-'' # rev a = rev v @ CHR ''-'' # rev b" by simp
  have "takeWhile (\<lambda>c. c \<noteq> CHR ''-'') (rev u @ CHR ''-'' # rev a) = rev u"
    using assms(1) by (subst takeWhile_append2) auto
  moreover have "takeWhile (\<lambda>c. c \<noteq> CHR ''-'') (rev v @ CHR ''-'' # rev b) = rev v"
    using assms(2) by (subst takeWhile_append2) auto
  ultimately have "rev u = rev v" using e by simp
  then have uv: "u = v" by simp
  with assms(3) show ?thesis by simp
qed

lemma synth_id_inj:
  "c @ ''-'' @ decimal i = d @ ''-'' @ decimal j \<Longrightarrow> c = d \<and> i = j"
  using hyphen_split [OF decimal_no_hyphen decimal_no_hyphen, of c i d j] decimal_inj by blast

lemma assignFrom_length: "length (assignFrom c k ms) = length ms"
  by (induction ms arbitrary: k) simp_all

lemma assignFrom_nth:
  "i < length ms \<Longrightarrow>
     assignFrom c k ms ! i = (ms ! i)\<lparr>movieId := Some (c @ ''-'' @ decimal (k + i))\<rparr>"
proof (induction ms arbitrary: k i)
  case Nil
  then show ?case by simp
next
  case (Cons m ms)
  show ?case
  proof (cases i)
    case 0
    then show ?thesis by simp
  next
    case (Suc j)
    with Cons.prems have "j < length ms" by simp
    from Cons.IH [OF this, of "Suc k"] Suc show ?thesis by simp
  qed
qed

lemma assignFrom_ids:
  "map movieId (assignFrom c k ms) =
     map (\<lambda>i. Some (c @ ''-'' @ decimal (k + i))) [0 ..< length ms]"
  by (rule nth_equalityI) (simp_all add: assignFrom_length assignFrom_nth)

lemma assignFrom_distinct: "distinct (map movieId (assignFrom c k ms))"
  unfolding assignFrom_ids
  by (auto simp: distinct_map inj_on_def dest!: decimal_inj)

lemma generateVideoIdsCat_keys: "map fst (generateVideoIdsCat vs) = map fst vs"
  by (induction vs) (auto simp: generateVideoIdsCat_def)

lemma generateVideoIdsCat_nth:
  "k < length vs \<Longrightarrow>
     generateVideoIdsCat vs ! k = (fst (vs ! k), assignFrom (fst (vs ! k)) 0 (snd (vs ! k)))"
  by (simp add: generateVideoIdsCat_def case_prod_beta)

lemma generated_ids_Cons:
  "map movieId (allMoviesOf (generateVideoIdsCat ((c, ms) # vs))) =
     map movieId (assignFrom c 0 ms) @ map movieId (allMoviesOf (generateVideoIdsCat vs))"
  by (simp add: allMoviesOf_def generateVideoIdsCat_def)

lemma generated_ids_shape:
  "x \<in> set (map movieId (allMoviesOf (generateVideoIdsCat vs))) \<Longrightarrow>
     \<exists>c i. c \<in> fst ` set vs \<and> x = Some (c @ ''-'' @ decimal i)"
proof (induction vs)
  case Nil
  then show ?case by (simp add: allMoviesOf_def generateVideoIdsCat_def)
next
  case (Cons p vs)
  obtain c ms where p: "p = (c, ms)" by (cases p)
  from Cons.prems p
  consider "x \<in> set (map movieId (assignFrom c 0 ms))"
    | "x \<in> set (map movieId (allMoviesOf (generateVideoIdsCat vs)))"
    unfolding p generated_ids_Cons set_append by blast
  then show ?case
  proof cases
    case 1
    then show ?thesis unfolding assignFrom_ids using p by auto
  next
    case 2
    from Cons.IH [OF this] show ?thesis by auto
  qed
qed

lemma generated_ids_distinct:
  "distinct (map fst vs) \<Longrightarrow> distinct (map movieId (allMoviesOf (generateVideoIdsCat vs)))"
proof (induction vs)
  case Nil
  then show ?case by (simp add: allMoviesOf_def generateVideoIdsCat_def)
next
  case (Cons p vs)
  obtain c ms where p: "p = (c, ms)" by (cases p)
  from Cons.prems p have fresh: "c \<notin> fst ` set vs" and dist: "distinct (map fst vs)"
    by simp_all
  have split: "map movieId (allMoviesOf (generateVideoIdsCat (p # vs))) =
      map movieId (assignFrom c 0 ms) @ map movieId (allMoviesOf (generateVideoIdsCat vs))"
    unfolding p by (rule generated_ids_Cons)
  have disj: "set (map movieId (assignFrom c 0 ms)) \<inter>
      set (map movieId (allMoviesOf (generateVideoIdsCat vs))) = {}"
  proof (rule ccontr)
    assume "\<not> ?thesis"
    then obtain x where x1: "x \<in> set (map movieId (assignFrom c 0 ms))"
      and x2: "x \<in> set (map movieId (allMoviesOf (generateVideoIdsCat vs)))" by blast
    from x1 obtain i where xi: "x = Some (c @ ''-'' @ decimal i)"
      unfolding assignFrom_ids by auto
    from generated_ids_shape [OF x2] obtain d j
      where d: "d \<in> fst ` set vs" and xj: "x = Some (d @ ''-'' @ decimal j)" by blast
    from xi xj have "c = d" using synth_id_inj [of c i d j] by simp
    with d fresh show False by simp
  qed
  show ?case
    unfolding split using assignFrom_distinct [of c 0 ms] Cons.IH [OF dist] disj
    by (simp only: distinct_append simp_thms)
qed

text \<open>Assigning the ids a second time changes nothing.\<close>

lemma assignFrom_idem: "assignFrom c k (assignFrom c k ms) = assignFrom c k ms"
  by (induction ms arbitrary: k) simp_all

lemma generateVideoIdsCat_idem:
  "generateVideoIdsCat (generateVideoIdsCat vs) = generateVideoIdsCat vs"
  by (induction vs) (auto simp: generateVideoIdsCat_def assignFrom_idem)

lemma generateVideoIds_idem: "generateVideoIds (generateVideoIds s) = generateVideoIds s"
  by (simp add: generateVideoIds_def generateVideoIdsCat_idem)

subsection \<open>Lookup by id\<close>

lemma findMovieById_None:
  "findMovieById vs i = None \<longleftrightarrow> (\<forall>m \<in> set (allMoviesOf vs). jsid m \<noteq> i)"
proof (induction vs)
  case Nil
  then show ?case by (simp add: allMoviesOf_def)
next
  case (Cons p vs)
  obtain c ms where p: "p = (c, ms)" by (cases p)
  have "find (\<lambda>m. jsid m = i) ms = None \<longleftrightarrow> (\<forall>m \<in> set ms. jsid m \<noteq> i)"
    by (auto simp: find_None_iff)
  with Cons.IH show ?case
    by (auto simp: p allMoviesOf_def split: option.splits)
qed

lemma findMovieById_Some:
  "findMovieById vs i = Some m \<Longrightarrow> m \<in> set (allMoviesOf vs) \<and> jsid m = i"
proof (induction vs)
  case Nil
  then show ?case by simp
next
  case (Cons p vs)
  obtain c ms where p: "p = (c, ms)" by (cases p)
  show ?case
  proof (cases "find (\<lambda>m. jsid m = i) ms")
    case None
    with Cons p show ?thesis by (auto simp: allMoviesOf_def)
  next
    case (Some m')
    then have "m' \<in> set ms \<and> jsid m' = i" by (auto simp: find_Some_iff)
    with Some Cons.prems p show ?thesis by (auto simp: allMoviesOf_def)
  qed
qed

lemma jsid_Str: "jsid m = Str i \<longleftrightarrow> movieId m = Some i"
  by (simp add: jsid_def split: option.splits)

subsection \<open>The examples evaluated\<close>

lemma exampleCatalog_ids:
  "map movieId (allMoviesOf (generateVideoIdsCat exampleCatalog)) =
     [Some ''action-0'', Some ''action-1'', Some ''drama-0'']"
  by (simp add: exampleCatalog_def generateVideoIdsCat_def allMoviesOf_def rawMovie_def
      decimal.simps digit_table)

lemma loadedPage_fields:
  "videos loadedPage = generateVideoIdsCat exampleCatalog"
  "currentPlayingMovie loadedPage = Some movieA"
  "favorites loadedPage = []"
  "storage loadedPage = Map.empty"
  "alert loadedPage = None"
  "activeNav loadedPage = None"
  "console loadedPage = []"
  by (simp_all add: loadedPage_def emptyPage_def)

subsection \<open>The trending loop\<close>

lemma foldl_concat_acc:
  "foldl (\<lambda>allMovies (c, ms). allMovies @ ms) acc vs = acc @ concat (map snd vs)"
  by (induction vs arbitrary: acc) (auto)


subsection \<open>What rendering touches\<close>

lemma createMovieCard_moviesContainer [simp]:
  "createMovieCard (s\<lparr>moviesContainer := ns\<rparr>) m = createMovieCard s m"
  by (simp add: createMovieCard_def split: option.splits)

lemma createMovieCard_Some:
  "tbl (translationTable s) (language (currentSettings s)) = Some t \<Longrightarrow>
     createMovieCard s m = Some (Card m (jsid m \<in> set (favorites s)) (tstr (t ''nowPlaying'')))"
  by (simp add: createMovieCard_def)

lemma createMovieCard_None:
  "tbl (translationTable s) (language (currentSettings s)) = None \<Longrightarrow> createMovieCard s m = None"
  by (simp add: createMovieCard_def)

lemma appendCards_frame: "\<exists>ns. final (appendCards s ms) = s\<lparr>moviesContainer := ns\<rparr>"
proof (induction ms arbitrary: s)
  case Nil
  have "s = s\<lparr>moviesContainer := moviesContainer s\<rparr>" by simp
  then show ?case by (metis appendCards.simps(1) final.simps(1))
next
  case (Cons m ms)
  show ?case
  proof (cases "createMovieCard s m")
    case None
    have "s = s\<lparr>moviesContainer := moviesContainer s\<rparr>" by simp
    with None show ?thesis by (metis appendCards.simps(2) final.simps(2) option.simps(4))
  next
    case (Some c)
    from Cons.IH [of "s\<lparr>moviesContainer := moviesContainer s @ [c]\<rparr>"]
    obtain ns where "final (appendCards (s\<lparr>moviesContainer := moviesContainer s @ [c]\<rparr>) ms)
        = s\<lparr>moviesContainer := ns\<rparr>" by auto
    with Some show ?thesis by auto
  qed
qed

lemma appendCards_Done:
  "tbl (translationTable s) (language (currentSettings s)) = Some t \<Longrightarrow>
     appendCards s ms =
       Done (s\<lparr>moviesContainer := moviesContainer s @
               map (\<lambda>m. Card m (jsid m \<in> set (favorites s)) (tstr (t ''nowPlaying''))) ms\<rparr>)"
proof (induction ms arbitrary: s)
  case Nil
  then show ?case by simp
next
  case (Cons m ms)
  let ?s' = "s\<lparr>moviesContainer := moviesContainer s @
        [Card m (jsid m \<in> set (favorites s)) (tstr (t ''nowPlaying''))]\<rparr>"
  from Cons.prems have "tbl (translationTable ?s') (language (currentSettings ?s')) = Some t"
    by simp
  from Cons.IH [OF this] Cons.prems show ?case
    by (simp add: createMovieCard_Some)
qed

text \<open>The cards of the favourites that resolve, in the order of the list.\<close>

lemma appendFavoriteCards_frame:
  "\<exists>ns. final (appendFavoriteCards s favs) = s\<lparr>moviesContainer := ns\<rparr>"
proof (induction favs arbitrary: s)
  case Nil
  have "s = s\<lparr>moviesContainer := moviesContainer s\<rparr>" by simp
  then show ?case by (metis appendFavoriteCards.simps(1) final.simps(1))
next
  case (Cons fav favs)
  show ?case
  proof (cases "findMovieById (videos s) fav")
    case None
    with Cons.IH [of s] show ?thesis by simp
  next
    case found: (Some m)
    show ?thesis
    proof (cases "createMovieCard s m")
      case None
      have "s = s\<lparr>moviesContainer := moviesContainer s\<rparr>" by simp
      with None found show ?thesis
        by (metis appendFavoriteCards.simps(2) final.simps(2) option.simps(4,5))
    next
      case (Some c)
      from Cons.IH [of "s\<lparr>moviesContainer := moviesContainer s @ [c]\<rparr>"]
      obtain ns where
        "final (appendFavoriteCards (s\<lparr>moviesContainer := moviesContainer s @ [c]\<rparr>) favs)
          = s\<lparr>moviesContainer := ns\<rparr>" by auto
      with Some found show ?thesis by auto
    qed
  qed
qed

lemma appendFavoriteCards_Done:
  "tbl (translationTable s) (language (currentSettings s)) = Some t \<Longrightarrow>
     appendFavoriteCards s favs =
       Done (s\<lparr>moviesContainer := moviesContainer s @
               map (\<lambda>m. Card m (jsid m \<in> set (favorites s)) (tstr (t ''nowPlaying'')))
                 (List.map_filter (findMovieById (videos s)) favs)\<rparr>)"
proof (induction favs arbitrary: s)
  case Nil
  then show ?case by (simp add: List.map_filter_simps)
next
  case (Cons fav favs)
  show ?case
  proof (cases "findMovieById (videos s) fav")
    case None
    with Cons.IH [OF Cons.prems] show ?thesis by (simp add: List.map_filter_simps)
  next
    case (Some m)
    let ?s' = "s\<lparr>moviesContainer := moviesContainer s @
        [Card m (jsid m \<in> set (favorites s)) (tstr (t ''nowPlaying''))]\<rparr>"
    from Cons.prems have "tbl (translationTable ?s') (language (currentSettings ?s')) = Some t" by simp
    from Cons.IH [OF this] Cons.prems Some show ?thesis
      by (simp add: createMovieCard_Some List.map_filter_simps)
  qed
qed

lemma displayFavorites_frame:
  "\<exists>ns. final (displayFavorites s) = s\<lparr>moviesContainer := ns\<rparr>"
proof (cases "tbl (translationTable s) (language (currentSettings s))")
  case None
  then show ?thesis by (auto simp: displayFavorites_def Let_def)
next
  case (Some t)
  show ?thesis
  proof (cases "favorites s = []")
    case True
    with Some show ?thesis by (auto simp: displayFavorites_def Let_def)
  next
    case False
    from appendFavoriteCards_frame
      [of "s\<lparr>moviesContainer := [Heading (tstr (t ''favoritesHeader''))]\<rparr>" "favorites s"]
    obtain ns where "final (appendFavoriteCards
        (s\<lparr>moviesContainer := [Heading (tstr (t ''favoritesHeader''))]\<rparr>) (favorites s))
        = s\<lparr>moviesContainer := ns\<rparr>" by auto
    with Some False show ?thesis by (auto simp: displayFavorites_def Let_def)
  qed
qed

lemma displayFavorites_Done:
  assumes "tbl (translationTable s) (language (currentSettings s)) = Some t"
  shows "displayFavorites s =
     Done (s\<lparr>moviesContainer :=
             Heading (tstr (t ''favoritesHeader'')) #
             (if favorites s = [] then [Para (tstr (t ''noFavorites''))]
              else map (\<lambda>m. Card m (jsid m \<in> set (favorites s)) (tstr (t ''nowPlaying'')))
                     (List.map_filter (findMovieById (videos s)) (favorites s)))\<rparr>)"
proof (cases "favorites s = []")
  case True
  with assms show ?thesis by (simp add: displayFavorites_def Let_def)
next
  case False
  let ?s2 = "s\<lparr>moviesContainer := [Heading (tstr (t ''favoritesHeader''))]\<rparr>"
  from assms have "tbl (translationTable ?s2) (language (currentSettings ?s2)) = Some t" by simp
  from appendFavoriteCards_Done [OF this, of "favorites s"] assms False
  show ?thesis by (simp add: displayFavorites_def Let_def)
qed


subsection \<open>Toggling\<close>

lemma saveFavorites_fields:
  "favorites (saveFavoritesToLocalStorage env s) = favorites s"
  "currentPlayingMovie (saveFavoritesToLocalStorage env s) = currentPlayingMovie s"
  "activeNav (saveFavoritesToLocalStorage env s) = activeNav s"
  "favBtnFilled (saveFavoritesToLocalStorage env s) = favBtnFilled s"
  "storage (saveFavoritesToLocalStorage env s) =
     (if setItemThrows env (storage s) ''favorites'' (jsonStringify env (Arr (favorites s)))
      then storage s
      else (storage s)(''favorites'' \<mapsto> jsonStringify env (Arr (favorites s))))"
  by (cases "version env";
      simp add: saveFavoritesToLocalStorage_def tryCatch_def setItem_def logLine_def)+

lemma updateFavoriteButtonState_fields:
  "favorites (updateFavoriteButtonState env i e s) = favorites s"
  "currentPlayingMovie (updateFavoriteButtonState env i e s) = currentPlayingMovie s"
  "activeNav (updateFavoriteButtonState env i e s) = activeNav s"
  "storage (updateFavoriteButtonState env i e s) = storage s"
  by (cases "version env"; simp add: updateFavoriteButtonState_def)+

lemma rerenderFavorites_frame:
  "\<exists>ns. final (rerenderFavorites s) = s\<lparr>moviesContainer := ns\<rparr>"
proof (cases "activeNav s = Some Favorites")
  case True
  with displayFavorites_frame [of s] show ?thesis by (simp add: rerenderFavorites_def)
next
  case False
  have "s = s\<lparr>moviesContainer := moviesContainer s\<rparr>" by simp
  with False show ?thesis by (metis rerenderFavorites_def final.simps(1))
qed

lemma rerenderFavorites_fields:
  "favorites (final (rerenderFavorites s)) = favorites s"
  "currentPlayingMovie (final (rerenderFavorites s)) = currentPlayingMovie s"
  "activeNav (final (rerenderFavorites s)) = activeNav s"
  "storage (final (rerenderFavorites s)) = storage s"
  "favBtnFilled (final (rerenderFavorites s)) = favBtnFilled s"
  using rerenderFavorites_frame [of s] by auto

lemma toggleFavorite_unfold:
  assumes "currentPlayingMovie s = Some movie"
  shows "toggleFavorite env s =
     rerenderFavorites
       (updateFavoriteButtonState env (jsid movie)
          (case version env of
             ScriptJs \<Rightarrow> Some (jsid movie \<notin> set (favorites s))
           | Part000 \<Rightarrow> None)
          (saveFavoritesToLocalStorage env
             ((case version env of
                 ScriptJs \<Rightarrow> (\<lambda>x. x)
               | Part000 \<Rightarrow>
                   showCustomAlert (Some ''Favorite'')
                     (if jsid movie \<in> set (favorites s) then FavoriteRemoved (title movie)
                      else FavoriteAdded (title movie)))
                (s\<lparr>favorites := toggled (version env) (jsid movie) (favorites s)\<rparr>))))"
  using assms
  by (cases "version env")
    (simp_all add: toggleFavorite_def toggled_def Let_def showCustomAlert_def)

lemma toggleFavorite_fields:
  assumes "currentPlayingMovie s = Some movie"
  shows "favorites (final (toggleFavorite env s))
           = toggled (version env) (jsid movie) (favorites s)"
    and "currentPlayingMovie (final (toggleFavorite env s)) = Some movie"
    and "activeNav (final (toggleFavorite env s)) = activeNav s"
    and "storage (final (toggleFavorite env s)) =
     (if setItemThrows env (storage s) ''favorites''
           (jsonStringify env (Arr (toggled (version env) (jsid movie) (favorites s))))
      then storage s
      else (storage s)(''favorites'' \<mapsto>
             jsonStringify env (Arr (toggled (version env) (jsid movie) (favorites s)))))"
    and "favBtnFilled (final (toggleFavorite env s)) =
     (if truthy (jsid movie)
      then jsid movie \<in> set (toggled (version env) (jsid movie) (favorites s))
      else version env = ScriptJs \<and> favBtnFilled s)"
  unfolding toggleFavorite_unfold [OF assms]
  using assms
  by (cases "version env";
      simp add: rerenderFavorites_fields updateFavoriteButtonState_fields saveFavorites_fields
        showCustomAlert_def updateFavoriteButtonState_def toggled_def)+

lemma saveFavorites_console:
  "console (saveFavoritesToLocalStorage env s) =
     (if setItemThrows env (storage s) ''favorites'' (jsonStringify env (Arr (favorites s)))
      then console s @ [case version env of
                          ScriptJs \<Rightarrow> ''Error saving favorites to localStorage:''
                        | Part000 \<Rightarrow> ''Error saving favorites:'']
      else console s)"
  by (cases "version env";
      simp add: saveFavoritesToLocalStorage_def tryCatch_def setItem_def logLine_def)

lemma updateFavoriteButtonState_console:
  "console (updateFavoriteButtonState env i e s) = console s"
  by (cases "version env"; simp add: updateFavoriteButtonState_def)

lemma rerenderFavorites_console:
  "console (final (rerenderFavorites s)) = console s"
  using rerenderFavorites_frame [of s] by auto

lemma toggleFavorite_console:
  assumes "currentPlayingMovie s = Some movie"
  shows "console (final (toggleFavorite env s)) =
     (if setItemThrows env (storage s) ''favorites''
           (jsonStringify env (Arr (toggled (version env) (jsid movie) (favorites s))))
      then console s @ [case version env of
                          ScriptJs \<Rightarrow> ''Error saving favorites to localStorage:''
                        | Part000 \<Rightarrow> ''Error saving favorites:'']
      else console s)"
  unfolding toggleFavorite_unfold [OF assms]
  by (cases "version env";
      simp add: rerenderFavorites_console updateFavoriteButtonState_console
        saveFavorites_console showCustomAlert_def)

lemma toggled_member:
  "distinct favs \<Longrightarrow> i \<in> set (toggled v i favs) \<longleftrightarrow> i \<notin> set favs"
  by (cases v) (auto simp: toggled_def)

lemma toggled_distinct: "distinct favs \<Longrightarrow> distinct (toggled v i favs)"
  by (cases v) (auto simp: toggled_def)

lemma toggled_twice_set:
  "distinct favs \<Longrightarrow> set (toggled v i (toggled v i favs)) = set favs"
  by (cases v) (auto simp: toggled_def)

subsection \<open>More of the examples evaluated\<close>

lemma jsid_movieA: "jsid movieA = Str ''action-0''"
  by (simp add: jsid_def movieA_def rawMovie_def)

lemma title_movieA: "title movieA = ''A''"
  by (simp add: movieA_def rawMovie_def)

lemma exampleEnv_fields:
  "version (exampleEnv v) = v"
  "jsonParse (exampleEnv v) = exampleParse"
  "jsonStringify (exampleEnv v) = exampleStringify"
  "setItemThrows (exampleEnv v) c k x = False"
  "menuBtns (exampleEnv v) = [''action'', ''drama'']"
  "version (fullStorageEnv v) = v"
  "jsonStringify (fullStorageEnv v) = exampleStringify"
  "setItemThrows (fullStorageEnv v) c k x = True"
  by (simp_all add: exampleEnv_def fullStorageEnv_def)

lemma twoFavorites_fields:
  "currentPlayingMovie twoFavorites = Some movieA"
  "favorites twoFavorites = [Str ''action-0'', Str ''drama-0'']"
  by (simp_all add: twoFavorites_def loadedPage_fields)

lemma tbl_inherited:
  "translations ''constructor'' = None \<Longrightarrow> tbl translations ''constructor'' = Some Map.empty"
  by (simp add: tbl_def tableOf_def objectPrototype_def)

lemma tbl_english:
  "translations lang = None \<Longrightarrow> lang \<notin> set objectPrototype \<Longrightarrow>
   tbl translations lang = translations ''english''"
  by (simp add: tbl_def tableOf_def objectPrototype_def split: option.splits)

lemma tbl_emptyPage:
  "tbl (translationTable emptyPage) (language (currentSettings emptyPage)) = None"
  by (simp add: tbl_def tableOf_def objectPrototype_def emptyPage_def defaultSettings_def)


lemma blankIdPlaying_fields:
  "currentPlayingMovie blankIdPlaying = Some blankId"
  "favorites blankIdPlaying = []"
  "storage blankIdPlaying = Map.empty"
  "favBtnFilled blankIdPlaying = False"
  "console blankIdPlaying = []"
  "jsid blankId = Str ''''"
  by (simp_all add: blankIdPlaying_def blankId_def loadedPage_def emptyPage_def jsid_def
      rawMovie_def)

lemma tbl_loadedPage:
  "tbl (translationTable loadedPage) (language (currentSettings loadedPage)) = Some exampleTable"
  by (simp add: tbl_def tableOf_def objectPrototype_def loadedPage_def emptyPage_def
      defaultSettings_def)


lemma exampleTable_lookup:
  "exampleTable ''selectMovieForFavorite'' = Some ''Select a movie first''"
  "exampleTable ''favoritesHeader'' = Some ''Favorites''"
  "exampleTable ''nowPlaying'' = Some ''Now Playing''"
  "exampleTable ''noFavorites'' = Some ''No favorites yet''"
  by (simp_all add: exampleTable_def)


lemma exampleCatalog_generated:
  "generateVideoIdsCat exampleCatalog = [(''action'', [movieA, movieB]), (''drama'', [movieC])]"
  by (simp add: exampleCatalog_def generateVideoIdsCat_def movieA_def movieB_def movieC_def
      rawMovie_def decimal.simps digit_table)

lemma jsid_examples:
  "jsid movieB = Str ''action-1''" "jsid movieC = Str ''drama-0''"
  by (simp_all add: jsid_def movieB_def movieC_def rawMovie_def)

lemma find_examples:
  "findMovieById (generateVideoIdsCat exampleCatalog) (Str ''action-0'') = Some movieA"
  "findMovieById (generateVideoIdsCat exampleCatalog) (Str ''action-1'') = Some movieB"
  "findMovieById (generateVideoIdsCat exampleCatalog) (Str ''gone-7'') = None"
  by (simp_all add: exampleCatalog_generated jsid_movieA jsid_examples)

subsection \<open>The toggle with nothing playing\<close>

lemma toggleFavorite_nothing_playing_ScriptJs:
  "currentPlayingMovie s = None \<Longrightarrow> version env = ScriptJs \<Longrightarrow>
     toggleFavorite env s = Done (s\<lparr>favBtnShake := True\<rparr>)"
  by (simp add: toggleFavorite_def)

lemma toggleFavorite_nothing_playing_Part000:
  "currentPlayingMovie s = None \<Longrightarrow> version env = Part000 \<Longrightarrow>
     toggleFavorite env s =
       (case tbl (translationTable s) (language (currentSettings s)) of
          None \<Rightarrow> Threw TypeError s
        | Some t \<Rightarrow>
            Done (s\<lparr>alert := Some (Some ''Favorite'', Text (t ''selectMovieForFavorite''))\<rparr>))"
  by (simp add: toggleFavorite_def showCustomAlert_def split: option.splits)

lemma exampleParse_values:
  \<open>exampleParse ''not json'' = None\<close>
  \<open>exampleParse ''{}'' = Some (Obj [])\<close>
  \<open>exampleParse ''7'' = Some (Atom ''7'')\<close>
  \<open>exampleParse ''["gone-7","action-1"]'' = Some (Arr [Str ''gone-7'', Str ''action-1''])\<close>
  by (simp_all add: exampleParse_def)

lemma withStoredFavorites_storage:
  "storage (withStoredFavorites stored) ''favorites'' = Some stored"
  by (simp add: withStoredFavorites_def)

subsection \<open>Sequencing\<close>

lemma final_andThen:
  "final (andThen r f) = (case r of Done s \<Rightarrow> final (f s) | Threw e s \<Rightarrow> s)"
  by (cases r) (simp_all add: andThen_def)

lemma andThen_Done [simp]: "andThen (Done s) f = f s"
  by (simp add: andThen_def)

lemma andThen_Threw [simp]: "andThen (Threw e s) f = Threw e s"
  by (simp add: andThen_def)

lemma tryCatch_simps [simp]:
  "tryCatch (Done s) h = s" "tryCatch (Threw e s) h = h s"
  by (simp_all add: tryCatch_def)

subsection \<open>Rendering leaves the data alone\<close>

lemma sameData_refl [simp]: "sameData s s"
  by (simp add: sameData_def)

lemma sameData_trans: "sameData s s' \<Longrightarrow> sameData s' s'' \<Longrightarrow> sameData s s''"
  by (simp add: sameData_def)

lemma sameData_tbl:
  "sameData s s' \<Longrightarrow>
     tbl (translationTable s') (language (currentSettings s'))
       = tbl (translationTable s) (language (currentSettings s))"
  by (simp add: sameData_def)

lemma sameData_view [simp]:
  "sameData s (s\<lparr>moviesContainer := ns\<rparr>)"
  "sameData s (s\<lparr>alert := a\<rparr>)"
  "sameData s (s\<lparr>console := c\<rparr>)"
  by (simp_all add: sameData_def)

lemma displayTrending_Done:
  assumes "tbl (translationTable s) (language (currentSettings s)) = Some t"
  shows "displayTrending s =
     Done (s\<lparr>moviesContainer :=
             Heading (tstr (t ''trendingHeader'')) #
             (if trendingMovies (videos s) = [] then [Para (tstr (t ''noContent''))]
              else map (\<lambda>m. Card m (jsid m \<in> set (favorites s)) (tstr (t ''nowPlaying'')))
                     (trendingMovies (videos s)))\<rparr>)"
proof (cases "trendingMovies (videos s) = []")
  case True
  with assms show ?thesis by (simp add: displayTrending_def Let_def)
next
  case False
  let ?s2 = "s\<lparr>moviesContainer := [Heading (tstr (t ''trendingHeader''))]\<rparr>"
  from assms have "tbl (translationTable ?s2) (language (currentSettings ?s2)) = Some t" by simp
  from appendCards_Done [OF this, of "trendingMovies (videos s)"] assms False
  show ?thesis by (simp add: displayTrending_def Let_def)
qed

lemma displayTrending_None:
  "tbl (translationTable s) (language (currentSettings s)) = None \<Longrightarrow>
     displayTrending s = Threw TypeError (s\<lparr>moviesContainer := []\<rparr>)"
  by (simp add: displayTrending_def Let_def)

lemma displayFavorites_None:
  "tbl (translationTable s) (language (currentSettings s)) = None \<Longrightarrow>
     displayFavorites s = Threw TypeError (s\<lparr>moviesContainer := []\<rparr>)"
  by (simp add: displayFavorites_def Let_def)

text \<open>The state \<^verbatim>\<open>showCategory\<close> works on once it has marked the button.\<close>

lemma showCategory_Done:
  assumes "tbl (translationTable s) (language (currentSettings s)) = Some t"
  shows "showCategory env c b s =
     Done (s\<lparr>moviesContainer :=
             Heading (tstr (t ''selectCategory'') @ '': '' @ tstr (t c)) #
             (if (case map_of (videos s) c of None \<Rightarrow> [] | Some ms \<Rightarrow> ms) = []
              then [Para (tstr (t ''noContent''))]
              else map (\<lambda>m. Card m (jsid m \<in> set (favorites s)) (tstr (t ''nowPlaying'')))
                     (case map_of (videos s) c of None \<Rightarrow> [] | Some ms \<Rightarrow> ms)),
            currentSettings :=
              (case version env of
                 ScriptJs \<Rightarrow> (currentSettings s)\<lparr>category := Some c\<rparr>
               | Part000 \<Rightarrow> currentSettings s),
            activeCategory := b\<rparr>)"
proof -
  let ?cv = "case map_of (videos s) c of None \<Rightarrow> [] | Some ms \<Rightarrow> ms"
  let ?cs = "case version env of
                 ScriptJs \<Rightarrow> (currentSettings s)\<lparr>category := Some c\<rparr>
               | Part000 \<Rightarrow> currentSettings s"
  let ?s4 = "s\<lparr>currentSettings := ?cs, activeCategory := b,
               moviesContainer := [Heading (tstr (t ''selectCategory'') @ '': '' @ tstr (t c))]\<rparr>"
  have lang: "language ?cs = language (currentSettings s)"
    by (cases "version env") simp_all
  with assms have t4: "tbl (translationTable ?s4) (language (currentSettings ?s4)) = Some t"
    by simp
  have unfold: "showCategory env c b s =
      (if ?cv = [] then Done (?s4\<lparr>moviesContainer := moviesContainer ?s4 @ [Para (tstr (t ''noContent''))]\<rparr>)
       else appendCards ?s4 ?cv)"
    using assms by (cases "version env") (simp_all add: showCategory_def Let_def)
  show ?thesis
  proof (cases "?cv = []")
    case True
    with unfold show ?thesis by simp
  next
    case False
    with unfold appendCards_Done [OF t4, of ?cv] show ?thesis by simp
  qed
qed

lemma showCategory_None:
  assumes "tbl (translationTable s) (language (currentSettings s)) = None"
  shows "showCategory env c b s =
     Threw TypeError
       (s\<lparr>moviesContainer := [],
          currentSettings :=
              (case version env of
                 ScriptJs \<Rightarrow> (currentSettings s)\<lparr>category := Some c\<rparr>
               | Part000 \<Rightarrow> currentSettings s),
          activeCategory := b\<rparr>)"
  using assms by (cases "version env") (simp_all add: showCategory_def Let_def)

lemma sameData_showCategory: "sameData s (final (showCategory env c b s))"
proof (cases "tbl (translationTable s) (language (currentSettings s))")
  case None
  from showCategory_None [OF this] show ?thesis
    by (cases "version env") (simp_all add: sameData_def)
next
  case (Some t)
  from showCategory_Done [OF this] show ?thesis
    by (cases "version env") (simp_all add: sameData_def)
qed

lemma activeNav_showCategory: "activeNav (final (showCategory env c b s)) = activeNav s"
proof (cases "tbl (translationTable s) (language (currentSettings s))")
  case None
  from showCategory_None [OF this] show ?thesis by simp
next
  case (Some t)
  from showCategory_Done [OF this] show ?thesis by simp
qed

lemma sameData_displayTrending: "sameData s (final (displayTrending s))"
proof (cases "tbl (translationTable s) (language (currentSettings s))")
  case None
  from displayTrending_None [OF this] show ?thesis by simp
next
  case (Some t)
  from displayTrending_Done [OF this] show ?thesis by simp
qed

lemma activeNav_displayTrending: "activeNav (final (displayTrending s)) = activeNav s"
proof (cases "tbl (translationTable s) (language (currentSettings s))")
  case None
  from displayTrending_None [OF this] show ?thesis by simp
next
  case (Some t)
  from displayTrending_Done [OF this] show ?thesis by simp
qed

lemma sameData_displayFavorites: "sameData s (final (displayFavorites s))"
  using displayFavorites_frame [of s] by auto

lemma activeNav_displayFavorites: "activeNav (final (displayFavorites s)) = activeNav s"
  using displayFavorites_frame [of s] by auto

lemma displayProfileSettings_cases:
  "displayProfileSettings s =
     (case tbl (translationTable s) (language (currentSettings s)) of
        None \<Rightarrow> Threw TypeError s
      | Some t \<Rightarrow> Done (s\<lparr>moviesContainer := [SettingsForm (currentSettings s)]\<rparr>))"
  by (simp add: displayProfileSettings_def)

lemma sameData_displayProfileSettings: "sameData s (final (displayProfileSettings s))"
  by (simp add: displayProfileSettings_cases split: option.splits)

lemma activeNav_displayProfileSettings:
  "activeNav (final (displayProfileSettings s)) = activeNav s"
  by (simp add: displayProfileSettings_cases split: option.splits)

lemma sameData_updateFavoriteButtonState [simp]:
  "sameData s (updateFavoriteButtonState env i e s)"
  by (cases "version env") (simp_all add: updateFavoriteButtonState_def sameData_def)

lemma activeNav_updateFavoriteButtonState [simp]:
  "activeNav (updateFavoriteButtonState env i e s) = activeNav s"
  "activeCategory (updateFavoriteButtonState env i e s) = activeCategory s"
  by (cases "version env"; simp add: updateFavoriteButtonState_def)+

lemma applyLanguage_None:
  "tbl (translationTable s) lang = None \<Longrightarrow> applyLanguage env lang s = Threw TypeError s"
  by (simp add: applyLanguage_def)

lemma applyLanguage_Done:
  assumes "tbl (translationTable s) lang = Some t"
  shows "\<exists>s'. applyLanguage env lang s = Done s' \<and> sameData s s'
    \<and> activeNav s' = activeNav s \<and> activeCategory s' = activeCategory s"
proof (cases "version env")
  case ScriptJs
  with assms have "applyLanguage env lang s =
      Done (s\<lparr>mainTitle := t ''title'',
              currentTitle :=
                (case currentPlayingMovie s of
                   None \<Rightarrow> t ''selectMovie''
                 | Some movie \<Rightarrow> Some (tstr (t ''nowPlaying'') @ '': '' @ title movie))\<rparr>)"
    by (simp add: applyLanguage_def Let_def)
  then show ?thesis by (simp add: sameData_def)
next
  case Part000
  let ?s1 = "s\<lparr>mainTitle := t ''title'',
              currentTitle :=
                (case currentPlayingMovie s of
                   None \<Rightarrow> t ''selectMovie''
                 | Some movie \<Rightarrow> Some (tstr (t ''nowPlaying'') @ '': '' @ title movie))\<rparr>"
  from Part000 assms have "applyLanguage env lang s =
      Done (updateFavoriteButtonState env
              (case currentPlayingMovie ?s1 of None \<Rightarrow> Atom ''null'' | Some movie \<Rightarrow> jsid movie)
              None ?s1)"
    by (simp add: applyLanguage_def Let_def)
  moreover have "sameData s ?s1" by (simp add: sameData_def)
  ultimately show ?thesis
    using sameData_trans [OF \<open>sameData s ?s1\<close> sameData_updateFavoriteButtonState]
    by simp
qed

text \<open>The re-rendering at the end of \<^verbatim>\<open>applySettings\<close>.\<close>

lemma rerender_final:
  "sameData s (final (case activeNav s of
         None \<Rightarrow> Done s
       | Some Home \<Rightarrow>
           (case activeCategory s of
              None \<Rightarrow> Done s
            | Some c \<Rightarrow> showCategory env c (Some c) s)
       | Some Trending \<Rightarrow> displayTrending s
       | Some Favorites \<Rightarrow> displayFavorites s
       | Some Profile \<Rightarrow> displayProfileSettings s))
   \<and> activeNav (final (case activeNav s of
         None \<Rightarrow> Done s
       | Some Home \<Rightarrow>
           (case activeCategory s of
              None \<Rightarrow> Done s
            | Some c \<Rightarrow> showCategory env c (Some c) s)
       | Some Trending \<Rightarrow> displayTrending s
       | Some Favorites \<Rightarrow> displayFavorites s
       | Some Profile \<Rightarrow> displayProfileSettings s)) = activeNav s"
  by (simp add: sameData_showCategory activeNav_showCategory sameData_displayTrending
      activeNav_displayTrending sameData_displayFavorites activeNav_displayFavorites
      sameData_displayProfileSettings activeNav_displayProfileSettings
      split: option.splits nav.splits)

lemma rerender_Done:
  assumes "tbl (translationTable s) (language (currentSettings s)) = Some t"
  shows "\<exists>s'. (case activeNav s of
         None \<Rightarrow> Done s
       | Some Home \<Rightarrow>
           (case activeCategory s of
              None \<Rightarrow> Done s
            | Some c \<Rightarrow> showCategory env c (Some c) s)
       | Some Trending \<Rightarrow> displayTrending s
       | Some Favorites \<Rightarrow> displayFavorites s
       | Some Profile \<Rightarrow> displayProfileSettings s) = Done s'"
  using assms
  by (simp add: showCategory_Done displayTrending_Done displayFavorites_Done
      displayProfileSettings_cases split: option.splits nav.splits)

lemma applySettings_None:
  "tbl (translationTable s) (language (currentSettings s)) = None \<Longrightarrow>
     applySettings env s = Threw TypeError s"
  by (simp add: applySettings_def applyLanguage_None)

lemma applySettings_Done:
  assumes "tbl (translationTable s) (language (currentSettings s)) = Some t"
  shows "\<exists>s'. applySettings env s = Done s' \<and> sameData s s' \<and> activeNav s' = activeNav s"
proof -
  from applyLanguage_Done [OF assms, of env] obtain s1
    where s1: "applyLanguage env (language (currentSettings s)) s = Done s1"
      and d1: "sameData s s1" and n1: "activeNav s1 = activeNav s" by blast
  from d1 assms have t1: "tbl (translationTable s1) (language (currentSettings s1)) = Some t"
    by (simp add: sameData_tbl)
  from rerender_Done [OF t1, of env] obtain s2 where s2: "(case activeNav s1 of
         None \<Rightarrow> Done s1
       | Some Home \<Rightarrow>
           (case activeCategory s1 of
              None \<Rightarrow> Done s1
            | Some c \<Rightarrow> showCategory env c (Some c) s1)
       | Some Trending \<Rightarrow> displayTrending s1
       | Some Favorites \<Rightarrow> displayFavorites s1
       | Some Profile \<Rightarrow> displayProfileSettings s1) = Done s2" by blast
  from rerender_final [of s1 env] s2 have "sameData s1 s2" and "activeNav s2 = activeNav s1"
    by simp_all
  with d1 n1 have "sameData s s2" and "activeNav s2 = activeNav s"
    by (auto intro: sameData_trans)
  moreover from s1 s2 have "applySettings env s = Done s2"
    by (simp add: applySettings_def)
  ultimately show ?thesis by blast
qed

lemma applySettings_final:
  "sameData s (final (applySettings env s))
   \<and> activeNav (final (applySettings env s)) = activeNav s"
proof (cases "tbl (translationTable s) (language (currentSettings s))")
  case None
  from applySettings_None [OF this] show ?thesis by simp
next
  case (Some t)
  from applySettings_Done [OF this, of env] show ?thesis by auto
qed

lemma changeNav_Done:
  assumes "tbl (translationTable s) (language (currentSettings s)) = Some t"
  shows "\<exists>s'. changeNav env btn s = Done s' \<and> sameData s s' \<and> activeNav s' = Some btn"
proof -
  let ?s1 = "s\<lparr>activeNav := Some btn, moviesContainer := []\<rparr>"
  show ?thesis
  proof (cases btn)
    case Home
    let ?s2 = "?s1\<lparr>menuHidden := False, playerHidden := False, headerSticky := True\<rparr>"
    have d2: "sameData s ?s2" and n2: "activeNav ?s2 = Some btn"
      by (simp_all add: sameData_def)
    from assms have t2: "tbl (translationTable ?s2) (language (currentSettings ?s2)) = Some t"
      by simp
    show ?thesis
    proof (cases "case activeCategory ?s2 of Some c \<Rightarrow> Some c
        | None \<Rightarrow> if ''action'' \<in> set (menuBtns env) then Some ''action'' else None")
      case None
      with Home have "changeNav env btn s = Done ?s2" by (simp add: changeNav_def Let_def)
      with d2 n2 Home show ?thesis by simp
    next
      case (Some c)
      with Home have u: "changeNav env btn s = showCategory env c (Some c) ?s2"
        by (simp add: changeNav_def Let_def)
      from showCategory_Done [OF t2, of env c "Some c"] obtain s3
        where s3: "showCategory env c (Some c) ?s2 = Done s3" by blast
      from sameData_showCategory [of ?s2 env c "Some c"] activeNav_showCategory [of env c "Some c" ?s2] s3
      have "sameData ?s2 s3" and "activeNav s3 = Some btn" by simp_all
      with d2 have "sameData s s3" by (blast intro: sameData_trans)
      with u s3 \<open>activeNav s3 = Some btn\<close> Home show ?thesis by simp
    qed
  next
    case Trending
    let ?s2 = "?s1\<lparr>menuHidden := True, playerHidden := False, headerSticky := True\<rparr>"
    have d2: "sameData s ?s2" and n2: "activeNav ?s2 = Some btn"
      by (simp_all add: sameData_def)
    from assms have t2: "tbl (translationTable ?s2) (language (currentSettings ?s2)) = Some t"
      by simp
    from Trending have u: "changeNav env btn s = displayTrending ?s2"
      by (simp add: changeNav_def Let_def)
    from displayTrending_Done [OF t2] obtain s3 where s3: "displayTrending ?s2 = Done s3" by blast
    from sameData_displayTrending [of ?s2] activeNav_displayTrending [of ?s2] s3
    have "sameData ?s2 s3" and "activeNav s3 = Some btn" by simp_all
    with d2 have "sameData s s3" by (blast intro: sameData_trans)
    with u s3 \<open>activeNav s3 = Some btn\<close> Trending show ?thesis by simp
  next
    case Favorites
    let ?s2 = "?s1\<lparr>menuHidden := True, playerHidden := False, headerSticky := True\<rparr>"
    have d2: "sameData s ?s2" and n2: "activeNav ?s2 = Some btn"
      by (simp_all add: sameData_def)
    from assms have t2: "tbl (translationTable ?s2) (language (currentSettings ?s2)) = Some t"
      by simp
    from Favorites have u: "changeNav env btn s = displayFavorites ?s2"
      by (simp add: changeNav_def Let_def)
    from displayFavorites_Done [OF t2] obtain s3 where s3: "displayFavorites ?s2 = Done s3" by blast
    from sameData_displayFavorites [of ?s2] activeNav_displayFavorites [of ?s2] s3
    have "sameData ?s2 s3" and "activeNav s3 = Some btn" by simp_all
    with d2 have "sameData s s3" by (blast intro: sameData_trans)
    with u s3 \<open>activeNav s3 = Some btn\<close> Favorites show ?thesis by simp
  next
    case Profile
    let ?s2 = "?s1\<lparr>menuHidden := True, playerHidden := True, headerSticky := False\<rparr>"
    have d2: "sameData s ?s2" and n2: "activeNav ?s2 = Some btn"
      by (simp_all add: sameData_def)
    from assms have t2: "tbl (translationTable ?s2) (language (currentSettings ?s2)) = Some t"
      by simp
    from Profile have u: "changeNav env btn s = displayProfileSettings ?s2"
      by (simp add: changeNav_def Let_def)
    from t2 obtain s3 where s3: "displayProfileSettings ?s2 = Done s3"
      by (simp add: displayProfileSettings_cases)
    from sameData_displayProfileSettings [of ?s2] activeNav_displayProfileSettings [of ?s2] s3
    have "sameData ?s2 s3" and "activeNav s3 = Some btn" by simp_all
    with d2 have "sameData s s3" by (blast intro: sameData_trans)
    with u s3 \<open>activeNav s3 = Some btn\<close> Profile show ?thesis by simp
  qed
qed

lemma changeNav_final: "sameData s (final (changeNav env btn s))"
proof -
  let ?s1 = "s\<lparr>activeNav := Some btn, moviesContainer := []\<rparr>"
  show ?thesis
  proof (cases btn)
    case Home
    let ?s2 = "?s1\<lparr>menuHidden := False, playerHidden := False, headerSticky := True\<rparr>"
    have d2: "sameData s ?s2" by (simp add: sameData_def)
    show ?thesis
    proof (cases "case activeCategory ?s2 of Some c \<Rightarrow> Some c
        | None \<Rightarrow> if ''action'' \<in> set (menuBtns env) then Some ''action'' else None")
      case None
      with Home have "changeNav env btn s = Done ?s2" by (simp add: changeNav_def Let_def)
      with d2 show ?thesis by simp
    next
      case (Some c)
      with Home have u: "changeNav env btn s = showCategory env c (Some c) ?s2"
        by (simp add: changeNav_def Let_def)
      from sameData_trans [OF d2 sameData_showCategory [of ?s2 env c "Some c"]] u
      show ?thesis by simp
    qed
  next
    case Trending
    let ?s2 = "?s1\<lparr>menuHidden := True, playerHidden := False, headerSticky := True\<rparr>"
    have d2: "sameData s ?s2" by (simp add: sameData_def)
    from Trending have u: "changeNav env btn s = displayTrending ?s2"
      by (simp add: changeNav_def Let_def)
    from sameData_trans [OF d2 sameData_displayTrending [of ?s2]] u show ?thesis by simp
  next
    case Favorites
    let ?s2 = "?s1\<lparr>menuHidden := True, playerHidden := False, headerSticky := True\<rparr>"
    have d2: "sameData s ?s2" by (simp add: sameData_def)
    from Favorites have u: "changeNav env btn s = displayFavorites ?s2"
      by (simp add: changeNav_def Let_def)
    from sameData_trans [OF d2 sameData_displayFavorites [of ?s2]] u show ?thesis by simp
  next
    case Profile
    let ?s2 = "?s1\<lparr>menuHidden := True, playerHidden := True, headerSticky := False\<rparr>"
    have d2: "sameData s ?s2" by (simp add: sameData_def)
    from Profile have u: "changeNav env btn s = displayProfileSettings ?s2"
      by (simp add: changeNav_def Let_def)
    from sameData_trans [OF d2 sameData_displayProfileSettings [of ?s2]] u show ?thesis by simp
  qed
qed

subsection \<open>Saving the settings\<close>

lemma mergeSettings_fields [simp]:
  "name (mergeSettings cur fv) = settingName fv"
  "email (mergeSettings cur fv) = settingEmail fv"
  "theme (mergeSettings cur fv) = settingTheme fv"
  "language (mergeSettings cur fv) = settingLanguage fv"
  "category (mergeSettings cur fv) = category cur"
  by (simp_all add: mergeSettings_def)

lemma saveSettings_write_fails:
  assumes "setItemThrows env (storage s) ''userSettings'' (jsonStringify env (settingsJson fv))"
  shows "saveSettings env fv s =
     (case version env of
        ScriptJs \<Rightarrow> s\<lparr>console := console s @ [''Error saving settings to localStorage:'']\<rparr>
      | Part000 \<Rightarrow> s\<lparr>alert := Some (Some ''Error'', SettingsSaveError)\<rparr>)"
  using assms
  by (cases "version env")
    (simp_all add: saveSettings_def setItem_def logLine_def showCustomAlert_def)

lemma written_fields [simp]:
  "storage (written env fv s) = (storage s)(''userSettings'' \<mapsto> jsonStringify env (settingsJson fv))"
  "currentSettings (written env fv s) = mergeSettings (currentSettings s) fv"
  "translationTable (written env fv s) = translationTable s"
  "activeNav (written env fv s) = activeNav s"
  by (simp_all add: written_def)

lemma saveSettings_written:
  assumes "\<not> setItemThrows env (storage s) ''userSettings'' (jsonStringify env (settingsJson fv))"
  shows "saveSettings env fv s =
     tryCatch
       (andThen (applySettings env (written env fv s)) (\<lambda>s2.
        andThen (changeNav env Home s2) (\<lambda>s3.
          case version env of
            ScriptJs \<Rightarrow> Done s3
          | Part000 \<Rightarrow>
              (case tableOf (translationTable s3) (language (currentSettings s3)) of
                 None \<Rightarrow> Threw TypeError s3
               | Some t \<Rightarrow> Done (showCustomAlert (t ''saveSettings'') SettingsSaved s3)))))
       (case version env of
          ScriptJs \<Rightarrow> logLine ''Error saving settings to localStorage:''
        | Part000 \<Rightarrow> showCustomAlert (Some ''Error'') SettingsSaveError)"
  using assms by (simp add: saveSettings_def setItem_def written_def)

lemma handler_sameData:
  "sameData s ((case version env of
          ScriptJs \<Rightarrow> logLine ''Error saving settings to localStorage:''
        | Part000 \<Rightarrow> showCustomAlert (Some ''Error'') SettingsSaveError) s)"
  "activeNav ((case version env of
          ScriptJs \<Rightarrow> logLine ''Error saving settings to localStorage:''
        | Part000 \<Rightarrow> showCustomAlert (Some ''Error'') SettingsSaveError) s) = activeNav s"
  by (cases "version env"; simp add: logLine_def showCustomAlert_def)+

lemma saveSettings_no_table:
  assumes "\<not> setItemThrows env (storage s) ''userSettings'' (jsonStringify env (settingsJson fv))"
    and "tbl (translationTable s) (settingLanguage fv) = None"
  shows "saveSettings env fv s =
     (case version env of
        ScriptJs \<Rightarrow> logLine ''Error saving settings to localStorage:''
      | Part000 \<Rightarrow> showCustomAlert (Some ''Error'') SettingsSaveError) (written env fv s)"
proof -
  from assms(2)
  have "tbl (translationTable (written env fv s)) (language (currentSettings (written env fv s)))
      = None" by simp
  from applySettings_None [OF this, of env] show ?thesis
    unfolding saveSettings_written [OF assms(1)] by simp
qed

lemma saveSettings_sameData:
  assumes "\<not> setItemThrows env (storage s) ''userSettings'' (jsonStringify env (settingsJson fv))"
  shows "sameData (written env fv s) (saveSettings env fv s)"
proof (cases "tbl (translationTable s) (settingLanguage fv)")
  case None
  from saveSettings_no_table [OF assms None] show ?thesis by (simp add: handler_sameData)
next
  case (Some t)
  let ?w = "written env fv s"
  let ?h = "case version env of
          ScriptJs \<Rightarrow> logLine ''Error saving settings to localStorage:''
        | Part000 \<Rightarrow> showCustomAlert (Some ''Error'') SettingsSaveError"
  from Some have tw: "tbl (translationTable ?w) (language (currentSettings ?w)) = Some t" by simp
  from applySettings_Done [OF tw, of env] obtain s2
    where s2: "applySettings env ?w = Done s2" and d2: "sameData ?w s2" by blast
  from d2 tw have t2: "tbl (translationTable s2) (language (currentSettings s2)) = Some t"
    by (simp add: sameData_tbl)
  from changeNav_Done [OF t2, of env Home] obtain s3
    where s3: "changeNav env Home s2 = Done s3" and d3: "sameData s2 s3" by blast
  from d2 d3 have d: "sameData ?w s3" by (rule sameData_trans)
  have "saveSettings env fv s =
      tryCatch (case version env of
            ScriptJs \<Rightarrow> Done s3
          | Part000 \<Rightarrow>
              (case tableOf (translationTable s3) (language (currentSettings s3)) of
                 None \<Rightarrow> Threw TypeError s3
               | Some t \<Rightarrow> Done (showCustomAlert (t ''saveSettings'') SettingsSaved s3))) ?h"
    unfolding saveSettings_written [OF assms] using s2 s3 by simp
  then show ?thesis
    using d
    by (cases "version env"; cases "tableOf (translationTable s3) (language (currentSettings s3))")
      (simp_all add: sameData_def logLine_def showCustomAlert_def)
qed

lemma saveSettings_home:
  assumes "\<not> setItemThrows env (storage s) ''userSettings'' (jsonStringify env (settingsJson fv))"
    and "tbl (translationTable s) (settingLanguage fv) = Some t"
  shows "activeNav (saveSettings env fv s) = Some Home"
proof -
  let ?w = "written env fv s"
  let ?h = "case version env of
          ScriptJs \<Rightarrow> logLine ''Error saving settings to localStorage:''
        | Part000 \<Rightarrow> showCustomAlert (Some ''Error'') SettingsSaveError"
  from assms(2) have tw: "tbl (translationTable ?w) (language (currentSettings ?w)) = Some t"
    by simp
  from applySettings_Done [OF tw, of env] obtain s2
    where s2: "applySettings env ?w = Done s2" and d2: "sameData ?w s2" by blast
  from d2 tw have t2: "tbl (translationTable s2) (language (currentSettings s2)) = Some t"
    by (simp add: sameData_tbl)
  from changeNav_Done [OF t2, of env Home] obtain s3
    where s3: "changeNav env Home s2 = Done s3" and n3: "activeNav s3 = Some Home" by blast
  have "saveSettings env fv s =
      tryCatch (case version env of
            ScriptJs \<Rightarrow> Done s3
          | Part000 \<Rightarrow>
              (case tableOf (translationTable s3) (language (currentSettings s3)) of
                 None \<Rightarrow> Threw TypeError s3
               | Some t \<Rightarrow> Done (showCustomAlert (t ''saveSettings'') SettingsSaved s3))) ?h"
    unfolding saveSettings_written [OF assms(1)] using s2 s3 by simp
  then show ?thesis
    using n3
    by (cases "version env"; cases "tableOf (translationTable s3) (language (currentSettings s3))")
      (simp_all add: logLine_def showCustomAlert_def)
qed

lemma settingsJson_englishLight:
  \<open>exampleStringify (settingsJson englishLight)
     = ''{"name":"","email":"","theme":"light","language":"english"}''\<close>
  by (simp add: exampleStringify_def settingsJson_def englishLight_def quoted_def)

lemma englishLight_fields:
  "settingName englishLight = []" "settingEmail englishLight = []"
  "settingTheme englishLight = ''light''" "settingLanguage englishLight = ''english''"
  by (simp_all add: englishLight_def)

lemma burmeseOnly_fields:
  "tbl (translationTable burmeseOnly) ''english'' = None"
  "activeNav burmeseOnly = Some Profile"
  "storage burmeseOnly = Map.empty"
  by (simp_all add: burmeseOnly_def
      tbl_def tableOf_def objectPrototype_def defaultSettings_def loadedPage_fields)

lemma settingsShown_fields:
  "tbl (translationTable settingsShown) ''english'' = Some exampleTable"
  "activeNav settingsShown = Some Profile"
  "storage settingsShown = Map.empty"
  "currentSettings settingsShown = defaultSettings"
  by (simp_all add: settingsShown_def
      tbl_def tableOf_def objectPrototype_def defaultSettings_def loadedPage_def emptyPage_def)

subsection \<open>Start-up\<close>

lemma loadSettings_videos [simp]:
  "videos (loadSettings env s) = videos s"
  by (cases "version env")
    (simp_all add: loadSettings_def logLine_def split: option.splits)

lemma loadFavorites_videos [simp]:
  "videos (loadFavorites env s) = videos s"
  by (cases "version env")
    (simp_all add: loadFavorites_def logLine_def split: option.splits)

lemma loadDataFromJSON_Document:
  "videos (loadDataFromJSON env (Document (Some vs) ts) s) = vs"
  by (simp add: loadDataFromJSON_def logLine_def)

lemma sameData_start:
  "sameData s (final (andThen (applySettings env s) (changeNav env Home)))"
proof (cases "applySettings env s")
  case (Done s')
  with applySettings_final [of s env] have "sameData s s'" by simp
  from sameData_trans [OF this changeNav_final [of s' env Home]] Done
  show ?thesis by (simp add: final_andThen)
next
  case (Threw e s')
  with applySettings_final [of s env] show ?thesis by (simp add: final_andThen)
qed

lemma initializeApp_videos:
  "videos (final (initializeApp env f s)) =
     (case version env of
        ScriptJs \<Rightarrow> videos s
      | Part000 \<Rightarrow> generateVideoIdsCat (videos (loadDataFromJSON env f s)))"
proof -
  let ?s1 = "case version env of
                  ScriptJs \<Rightarrow> s
                | Part000 \<Rightarrow> generateVideoIds (loadDataFromJSON env f s)"
  let ?s3 = "loadFavorites env (loadSettings env ?s1)"
  have "initializeApp env f s = andThen (applySettings env ?s3) (changeNav env Home)"
    by (simp add: initializeApp_def Let_def)
  with sameData_start [of ?s3 env]
  have "videos (final (initializeApp env f s)) = videos ?s3" by (simp add: sameData_def)
  then show ?thesis by (cases "version env") (simp_all add: generateVideoIds_def)
qed

lemma map_of_allMoviesOf: "map_of vs c = Some ms \<Longrightarrow> set ms \<subseteq> set (allMoviesOf vs)"
  by (auto simp: allMoviesOf_def dest!: map_of_SomeD)

lemma showCategory_cards:
  assumes "showCategory env c b s = Done s'" and "Card m fav label \<in> set (moviesContainer s')"
  shows "m \<in> set (allMoviesOf (videos s'))"
proof (cases "tbl (translationTable s) (language (currentSettings s))")
  case None
  from showCategory_None [OF this, of env c b] assms(1) show ?thesis by simp
next
  case (Some t)
  show ?thesis
  proof (cases "map_of (videos s) c")
    case None
    with showCategory_Done [OF Some, of env c b] assms show ?thesis by auto
  next
    case found: (Some ms)
    with showCategory_Done [OF Some, of env c b] assms have "m \<in> set ms" and "videos s' = videos s"
      by (auto split: if_splits)
    with map_of_allMoviesOf [OF found] show ?thesis by auto
  qed
qed

lemma changeNav_Home_cards:
  assumes "changeNav env Home s = Done s'" and "Card m fav label \<in> set (moviesContainer s')"
  shows "m \<in> set (allMoviesOf (videos s'))"
proof -
  let ?s2 = "s\<lparr>activeNav := Some Home, moviesContainer := [], menuHidden := False,
      playerHidden := False, headerSticky := True\<rparr>"
  show ?thesis
  proof (cases "case activeCategory ?s2 of Some c \<Rightarrow> Some c
        | None \<Rightarrow> if ''action'' \<in> set (menuBtns env) then Some ''action'' else None")
    case None
    then have "changeNav env Home s = Done ?s2" by (simp add: changeNav_def Let_def)
    with assms have "s' = ?s2" by simp
    with assms(2) show ?thesis by simp
  next
    case (Some c)
    then have "changeNav env Home s = showCategory env c (Some c) ?s2"
      by (simp add: changeNav_def Let_def)
    with assms(1) have "showCategory env c (Some c) ?s2 = Done s'" by simp
    from showCategory_cards [OF this assms(2)] show ?thesis .
  qed
qed

lemma initializeApp_cards:
  assumes "initializeApp env f s = Done s'" and "Card m fav label \<in> set (moviesContainer s')"
  shows "m \<in> set (allMoviesOf (videos s'))"
proof -
  let ?s1 = "case version env of
                  ScriptJs \<Rightarrow> s
                | Part000 \<Rightarrow> generateVideoIds (loadDataFromJSON env f s)"
  let ?s3 = "loadFavorites env (loadSettings env ?s1)"
  have u: "initializeApp env f s = andThen (applySettings env ?s3) (changeNav env Home)"
    by (simp add: initializeApp_def Let_def)
  show ?thesis
  proof (cases "applySettings env ?s3")
    case (Done s4)
    with u assms(1) have "changeNav env Home s4 = Done s'" by simp
    from changeNav_Home_cards [OF this assms(2)] show ?thesis .
  next
    case (Threw e s4)
    with u assms(1) show ?thesis by simp
  qed
qed

lemma started_reached:
  "loadFavorites (exampleEnv Part000) (loadSettings (exampleEnv Part000)
     (generateVideoIds (loadDataFromJSON (exampleEnv Part000) exampleDocument emptyPage)))
   = started"
  by (simp add: loadFavorites_def loadSettings_def generateVideoIds_def loadDataFromJSON_def
      exampleDocument_def parseFavorites_def logLine_def started_def emptyPage_def)

lemma started_fields:
  "tbl (translationTable started) (language (currentSettings started)) = Some exampleTable"
  "activeNav started = None"
  "activeCategory started = None"
  "videos started = generateVideoIdsCat exampleCatalog"
  "favorites started = []"
  "currentPlayingMovie started = None"
  by (simp_all add: started_def emptyPage_def
      tbl_def tableOf_def objectPrototype_def defaultSettings_def)

lemma exampleTable_more:
  "exampleTable ''title'' = Some ''WY MovieBox''"
  "exampleTable ''selectMovie'' = Some ''Select a movie''"
  "exampleTable ''selectCategory'' = Some ''Category''"
  "exampleTable ''action'' = Some ''Action''"
  by (simp_all add: exampleTable_def)

lemma applySettings_started:
  "applySettings (exampleEnv Part000) started =
     Done (started\<lparr>mainTitle := Some ''WY MovieBox'', currentTitle := Some ''Select a movie''\<rparr>)"
  by (simp add: applySettings_def applyLanguage_def started_fields Let_def exampleEnv_fields
      updateFavoriteButtonState_def exampleTable_more)
    (simp add: started_def emptyPage_def)

lemma changeNav_started:
  "moviesContainer (final (changeNav (exampleEnv Part000) Home
      (started\<lparr>mainTitle := Some ''WY MovieBox'', currentTitle := Some ''Select a movie''\<rparr>)))
   = [Heading ''Category: Action'', Card movieA False ''Now Playing'',
      Card movieB False ''Now Playing'']"
proof -
  let ?s = "started\<lparr>mainTitle := Some ''WY MovieBox'', currentTitle := Some ''Select a movie''\<rparr>"
  let ?s2 = "?s\<lparr>activeNav := Some Home, moviesContainer := [], menuHidden := False,
      playerHidden := False, headerSticky := True\<rparr>"
  have u: "changeNav (exampleEnv Part000) Home ?s
      = showCategory (exampleEnv Part000) ''action'' (Some ''action'') ?s2"
    by (simp add: changeNav_def Let_def started_fields exampleEnv_fields)
  have t: "tbl (translationTable ?s2) (language (currentSettings ?s2)) = Some exampleTable"
    by (simp add: started_fields)
  show ?thesis
    unfolding u showCategory_Done [OF t]
    by (simp add: started_fields exampleCatalog_generated exampleTable_more exampleTable_lookup
        tstr_def)
qed

lemma startup_ScriptJs_videos:
  "version env = ScriptJs \<Longrightarrow>
     videos (final (startup env (Document (Some vs) ts) s)) = vs"
  by (simp add: startup_def initializeApp_videos loadDataFromJSON_Document)

subsection \<open>The commands where a translation table is found\<close>

text \<open>
  \<^verbatim>\<open>saveSettings\<close> on either side of the write. When \<^verbatim>\<open>setItem\<close> throws, the preferences
  in memory, the active navigation tab and the storage stay as they were and the failure
  is reported (a console line in \<^verbatim>\<open>script.js\<close>, the alert in \<^verbatim>\<open>part_000\<close>). When the write
  goes through, the storage and the preferences in memory hold the submitted values; with
  a table for the submitted language or for English the navigation is back on \<^verbatim>\<open>home\<close>.
\<close>

lemma saveSettings_with_table:
  "(setItemThrows env (storage s) ''userSettings'' (jsonStringify env (settingsJson fv)) \<longrightarrow>
      saveSettings env fv s =
        (case version env of
           ScriptJs \<Rightarrow> s\<lparr>console := console s @ [''Error saving settings to localStorage:'']\<rparr>
         | Part000 \<Rightarrow> s\<lparr>alert := Some (Some ''Error'', SettingsSaveError)\<rparr>)
      \<and> currentSettings (saveSettings env fv s) = currentSettings s
      \<and> activeNav (saveSettings env fv s) = activeNav s
      \<and> storage (saveSettings env fv s) = storage s)
   \<and> (\<not> setItemThrows env (storage s) ''userSettings'' (jsonStringify env (settingsJson fv)) \<longrightarrow>
      storage (saveSettings env fv s)
        = (storage s)(''userSettings'' \<mapsto> jsonStringify env (settingsJson fv))
      \<and> name (currentSettings (saveSettings env fv s)) = settingName fv
      \<and> email (currentSettings (saveSettings env fv s)) = settingEmail fv
      \<and> theme (currentSettings (saveSettings env fv s)) = settingTheme fv
      \<and> language (currentSettings (saveSettings env fv s)) = settingLanguage fv
      \<and> (tbl (translationTable s) (settingLanguage fv) \<noteq> None \<longrightarrow>
           activeNav (saveSettings env fv s) = Some Home))"
proof (intro conjI impI)
  assume fails: "setItemThrows env (storage s) ''userSettings''
      (jsonStringify env (settingsJson fv))"
  note eq = saveSettings_write_fails [OF fails]
  show "saveSettings env fv s =
        (case version env of
           ScriptJs \<Rightarrow> s\<lparr>console := console s @ [''Error saving settings to localStorage:'']\<rparr>
         | Part000 \<Rightarrow> s\<lparr>alert := Some (Some ''Error'', SettingsSaveError)\<rparr>)"
    by (rule eq)
  show "currentSettings (saveSettings env fv s) = currentSettings s"
    unfolding eq by (cases "version env") simp_all
  show "activeNav (saveSettings env fv s) = activeNav s"
    unfolding eq by (cases "version env") simp_all
  show "storage (saveSettings env fv s) = storage s"
    unfolding eq by (cases "version env") simp_all
next
  assume ok: "\<not> setItemThrows env (storage s) ''userSettings''
      (jsonStringify env (settingsJson fv))"
  note d = saveSettings_sameData [OF ok]
  from d show "storage (saveSettings env fv s)
        = (storage s)(''userSettings'' \<mapsto> jsonStringify env (settingsJson fv))"
    by (simp add: sameData_def)
  from d show "name (currentSettings (saveSettings env fv s)) = settingName fv"
    by (simp add: sameData_def)
  from d show "email (currentSettings (saveSettings env fv s)) = settingEmail fv"
    by (simp add: sameData_def)
  from d show "theme (currentSettings (saveSettings env fv s)) = settingTheme fv"
    by (simp add: sameData_def)
  from d show "language (currentSettings (saveSettings env fv s)) = settingLanguage fv"
    by (simp add: sameData_def)
  show "activeNav (saveSettings env fv s) = Some Home"
    if "tbl (translationTable s) (settingLanguage fv) \<noteq> None"
    using that saveSettings_home [OF ok] by auto
qed

lemma saveSettings_with_table_example:
  \<open>setItemThrows (fullStorageEnv Part000) (storage settingsShown) ''userSettings''
        (jsonStringify (fullStorageEnv Part000) (settingsJson englishLight))
   \<and> saveSettings (fullStorageEnv Part000) englishLight settingsShown
        = settingsShown\<lparr>alert := Some (Some ''Error'', SettingsSaveError)\<rparr>
   \<and> currentSettings (saveSettings (fullStorageEnv Part000) englishLight settingsShown)
        = defaultSettings
   \<and> activeNav (saveSettings (fullStorageEnv Part000) englishLight settingsShown) = Some Profile
   \<and> \<not> setItemThrows (exampleEnv Part000) (storage settingsShown) ''userSettings''
        (jsonStringify (exampleEnv Part000) (settingsJson englishLight))
   \<and> tbl (translationTable settingsShown) (settingLanguage englishLight) = Some exampleTable
   \<and> storage (saveSettings (exampleEnv Part000) englishLight settingsShown) ''userSettings''
        = Some ''{"name":"","email":"","theme":"light","language":"english"}''
   \<and> language (currentSettings (saveSettings (exampleEnv Part000) englishLight settingsShown))
        = ''english''
   \<and> theme (currentSettings (saveSettings (exampleEnv Part000) englishLight settingsShown))
        = ''light''
   \<and> activeNav (saveSettings (exampleEnv Part000) englishLight settingsShown) = Some Home\<close>
proof -
  have fails: "setItemThrows (fullStorageEnv Part000) (storage settingsShown) ''userSettings''
        (jsonStringify (fullStorageEnv Part000) (settingsJson englishLight))"
    by (simp add: exampleEnv_fields)
  have ok: "\<not> setItemThrows (exampleEnv Part000) (storage settingsShown) ''userSettings''
        (jsonStringify (exampleEnv Part000) (settingsJson englishLight))"
    by (simp add: exampleEnv_fields)
  have t: "tbl (translationTable settingsShown) (settingLanguage englishLight) = Some exampleTable"
    by (simp add: englishLight_fields settingsShown_fields)
  from saveSettings_with_table [of "fullStorageEnv Part000" settingsShown englishLight] fails
  have a: "saveSettings (fullStorageEnv Part000) englishLight settingsShown
        = settingsShown\<lparr>alert := Some (Some ''Error'', SettingsSaveError)\<rparr>"
    and b: "currentSettings (saveSettings (fullStorageEnv Part000) englishLight settingsShown)
        = defaultSettings"
    and c: "activeNav (saveSettings (fullStorageEnv Part000) englishLight settingsShown)
        = Some Profile"
    by (simp_all add: exampleEnv_fields settingsShown_fields)
  from saveSettings_with_table [of "exampleEnv Part000" settingsShown englishLight] ok t
  have d: \<open>storage (saveSettings (exampleEnv Part000) englishLight settingsShown) ''userSettings''
        = Some ''{"name":"","email":"","theme":"light","language":"english"}''\<close>
    and e: "language (currentSettings (saveSettings (exampleEnv Part000) englishLight settingsShown))
        = ''english''"
    and f: "theme (currentSettings (saveSettings (exampleEnv Part000) englishLight settingsShown))
        = ''light''"
    and g: "activeNav (saveSettings (exampleEnv Part000) englishLight settingsShown) = Some Home"
    by (simp_all add: exampleEnv_fields settingsShown_fields settingsJson_englishLight
        englishLight_fields)
  from fails a b c ok t d e f g show ?thesis by (simp only: simp_thms)
qed

text \<open>
  \<^verbatim>\<open>toggleFavorite\<close> with nothing playing changes nothing but its notice: \<^verbatim>\<open>script.js\<close>
  sets the shake cue of the button; \<^verbatim>\<open>part_000\<close>, with a table for the current language
  or for English, opens the alert with the text \<^verbatim>\<open>selectMovieForFavorite\<close> of that table.
\<close>

lemma toggleFavorite_nothing_playing_with_table:
  assumes "currentPlayingMovie s = None"
  shows "(final (toggleFavorite env s))\<lparr>favBtnShake := favBtnShake s, alert := alert s\<rparr> = s
    \<and> (version env = ScriptJs \<longrightarrow> toggleFavorite env s = Done (s\<lparr>favBtnShake := True\<rparr>))
    \<and> (version env = Part000 \<longrightarrow>
         (\<forall>t. tbl (translationTable s) (language (currentSettings s)) = Some t \<longrightarrow>
            toggleFavorite env s =
              Done (s\<lparr>alert := Some (Some ''Favorite'', Text (t ''selectMovieForFavorite''))\<rparr>)))"
proof (cases "version env")
  case ScriptJs
  from toggleFavorite_nothing_playing_ScriptJs [OF assms ScriptJs] ScriptJs
  show ?thesis by simp
next
  case Part000
  note unfold = toggleFavorite_nothing_playing_Part000 [OF assms Part000]
  show ?thesis
  proof (cases "tbl (translationTable s) (language (currentSettings s))")
    case None
    with unfold Part000 show ?thesis by simp
  next
    case (Some t)
    with unfold Part000 show ?thesis by simp
  qed
qed

lemma toggleFavorite_nothing_playing_example:
  "currentPlayingMovie nothingPlaying = None
   \<and> toggleFavorite (exampleEnv ScriptJs) nothingPlaying
        = Done (nothingPlaying\<lparr>favBtnShake := True\<rparr>)
   \<and> toggleFavorite (exampleEnv Part000) nothingPlaying
        = Done (nothingPlaying\<lparr>alert := Some (Some ''Favorite'', Text (Some ''Select a movie first''))\<rparr>)
   \<and> favorites (final (toggleFavorite (exampleEnv Part000) nothingPlaying)) = []"
proof -
  have p: "currentPlayingMovie nothingPlaying = None" by (simp add: nothingPlaying_def)
  have t: "tbl (translationTable nothingPlaying) (language (currentSettings nothingPlaying)) = Some exampleTable"
    by (simp add: nothingPlaying_def
        tbl_def tableOf_def objectPrototype_def defaultSettings_def loadedPage_def emptyPage_def)
  have f: "favorites nothingPlaying = []" by (simp add: nothingPlaying_def loadedPage_fields)
  from toggleFavorite_nothing_playing_with_table [OF p, of "exampleEnv ScriptJs"]
  have a: "toggleFavorite (exampleEnv ScriptJs) nothingPlaying
        = Done (nothingPlaying\<lparr>favBtnShake := True\<rparr>)"
    by (simp add: exampleEnv_fields)
  from toggleFavorite_nothing_playing_with_table [OF p, of "exampleEnv Part000"] t
  have b: "toggleFavorite (exampleEnv Part000) nothingPlaying
        = Done (nothingPlaying\<lparr>alert := Some (Some ''Favorite'', Text (Some ''Select a movie first''))\<rparr>)"
    by (simp add: exampleEnv_fields exampleTable_lookup)
  from p a b f show ?thesis by simp
qed

text \<open>
  \<^verbatim>\<open>displayFavorites\<close> never changes the favourites or the storage. With a table for the
  current language or for English it returns with the heading followed by one card for
  each favourite that \<^verbatim>\<open>findMovieById\<close> resolves, in the order of the list (the notice of
  an empty list when the list is empty); favourites that resolve to nothing are passed
  over.
\<close>

lemma displayFavorites_with_table:
  "favorites (final (displayFavorites s)) = favorites s
   \<and> storage (final (displayFavorites s)) = storage s
   \<and> (\<forall>t. tbl (translationTable s) (language (currentSettings s)) = Some t \<longrightarrow>
        displayFavorites s =
          Done (s\<lparr>moviesContainer :=
                  Heading (tstr (t ''favoritesHeader'')) #
                  (if favorites s = [] then [Para (tstr (t ''noFavorites''))]
                   else map (\<lambda>fav. Card (the (findMovieById (videos s) fav))
                                     (jsid (the (findMovieById (videos s) fav)) \<in> set (favorites s))
                                     (tstr (t ''nowPlaying'')))
                          (filter (\<lambda>fav. findMovieById (videos s) fav \<noteq> None)
                             (favorites s)))\<rparr>))"
proof (intro conjI allI impI)
  from displayFavorites_frame [of s]
  show "favorites (final (displayFavorites s)) = favorites s"
    and "storage (final (displayFavorites s)) = storage s" by auto
next
  fix t assume "tbl (translationTable s) (language (currentSettings s)) = Some t"
  from displayFavorites_Done [OF this]
  show "displayFavorites s =
          Done (s\<lparr>moviesContainer :=
                  Heading (tstr (t ''favoritesHeader'')) #
                  (if favorites s = [] then [Para (tstr (t ''noFavorites''))]
                   else map (\<lambda>fav. Card (the (findMovieById (videos s) fav))
                                     (jsid (the (findMovieById (videos s) fav)) \<in> set (favorites s))
                                     (tstr (t ''nowPlaying'')))
                          (filter (\<lambda>fav. findMovieById (videos s) fav \<noteq> None)
                             (favorites s)))\<rparr>)"
    by (simp add: List.map_filter_def comp_def)
qed

lemma displayFavorites_with_table_example:
  "tbl (translationTable staleFavorites) (language (currentSettings staleFavorites)) = Some exampleTable
   \<and> displayFavorites staleFavorites =
       Done (staleFavorites\<lparr>moviesContainer :=
               [Heading ''Favorites'', Card movieB True ''Now Playing'',
                Card movieA True ''Now Playing'']\<rparr>)
   \<and> favorites (final (displayFavorites staleFavorites))
       = [Str ''gone-7'', Str ''action-1'', Str ''action-0'']"
proof -
  have t: "tbl (translationTable staleFavorites) (language (currentSettings staleFavorites))
      = Some exampleTable"
    by (simp add: staleFavorites_def
        tbl_def tableOf_def objectPrototype_def defaultSettings_def loadedPage_def emptyPage_def)
  have v: "videos staleFavorites = generateVideoIdsCat exampleCatalog"
    and f: "favorites staleFavorites = [Str ''gone-7'', Str ''action-1'', Str ''action-0'']"
    by (simp_all add: staleFavorites_def loadedPage_fields)
  note general = displayFavorites_with_table [of staleFavorites]
  from general have kept: "favorites (final (displayFavorites staleFavorites))
      = favorites staleFavorites" by (rule conjunct1)
  have shown: "Heading (tstr (exampleTable ''favoritesHeader'')) #
      (if favorites staleFavorites = [] then [Para (tstr (exampleTable ''noFavorites''))]
       else map (\<lambda>fav. Card (the (findMovieById (videos staleFavorites) fav))
                  (jsid (the (findMovieById (videos staleFavorites) fav))
                     \<in> set (favorites staleFavorites))
                  (tstr (exampleTable ''nowPlaying'')))
              (filter (\<lambda>fav. findMovieById (videos staleFavorites) fav \<noteq> None)
                 (favorites staleFavorites)))
      = [Heading ''Favorites'', Card movieB True ''Now Playing'',
         Card movieA True ''Now Playing'']"
    unfolding v f
    by (simp add: find_examples jsid_movieA jsid_examples exampleTable_lookup tstr_def)
  from general t have "displayFavorites staleFavorites =
      Done (staleFavorites\<lparr>moviesContainer :=
        Heading (tstr (exampleTable ''favoritesHeader'')) #
      (if favorites staleFavorites = [] then [Para (tstr (exampleTable ''noFavorites''))]
       else map (\<lambda>fav. Card (the (findMovieById (videos staleFavorites) fav))
                  (jsid (the (findMovieById (videos staleFavorites) fav))
                     \<in> set (favorites staleFavorites))
                  (tstr (exampleTable ''nowPlaying'')))
              (filter (\<lambda>fav. findMovieById (videos staleFavorites) fav \<noteq> None)
                 (favorites staleFavorites)))\<rparr>)"
    by blast
  then have "displayFavorites staleFavorites =
       Done (staleFavorites\<lparr>moviesContainer :=
               [Heading ''Favorites'', Card movieB True ''Now Playing'',
                Card movieA True ''Now Playing'']\<rparr>)"
    by (simp only: shown)
  with t kept f show ?thesis by (simp only: simp_thms)
qed

section \<open>The claims\<close>

text \<open>
  C1. After \<^verbatim>\<open>generateVideoIds\<close> the movie at position \<open>index\<close> of category \<open>c\<close> is the
  movie that stood there before with its id set to \<open>c-index\<close> (nothing else changes, the
  keys and their order stay), and the ids of all movies of the catalog are pairwise
  different. The hypothesis says that \<open>videos\<close> lists an object: its keys are distinct.
\<close>

theorem generateVideoIds_unique_positional_ids:
  assumes "distinct (map fst (videos s))"
  shows "map fst (videos (generateVideoIds s)) = map fst (videos s)
    \<and> (\<forall>k < length (videos s).
          length (snd (videos (generateVideoIds s) ! k)) = length (snd (videos s ! k))
        \<and> (\<forall>index < length (snd (videos s ! k)).
              snd (videos (generateVideoIds s) ! k) ! index =
                (snd (videos s ! k) ! index)
                  \<lparr>movieId := Some (fst (videos s ! k) @ ''-'' @ decimal index)\<rparr>))
    \<and> distinct (map movieId (allMoviesOf (videos (generateVideoIds s))))"
proof (intro conjI allI impI)
  show "map fst (videos (generateVideoIds s)) = map fst (videos s)"
    by (simp add: generateVideoIds_def generateVideoIdsCat_keys)
next
  fix k assume "k < length (videos s)"
  then show "length (snd (videos (generateVideoIds s) ! k)) = length (snd (videos s ! k))"
    by (simp add: generateVideoIds_def generateVideoIdsCat_nth assignFrom_length)
next
  fix k index
  assume "k < length (videos s)" and "index < length (snd (videos s ! k))"
  then show "snd (videos (generateVideoIds s) ! k) ! index =
      (snd (videos s ! k) ! index)\<lparr>movieId := Some (fst (videos s ! k) @ ''-'' @ decimal index)\<rparr>"
    by (simp add: generateVideoIds_def generateVideoIdsCat_nth assignFrom_nth)
next
  from assms show "distinct (map movieId (allMoviesOf (videos (generateVideoIds s))))"
    by (simp add: generateVideoIds_def generated_ids_distinct)
qed

theorem generateVideoIds_unique_positional_ids_witness:
  "distinct (map fst (videos (emptyPage\<lparr>videos := exampleCatalog\<rparr>)))
   \<and> map movieId (allMoviesOf (videos (generateVideoIds (emptyPage\<lparr>videos := exampleCatalog\<rparr>))))
       = [Some ''action-0'', Some ''action-1'', Some ''drama-0'']
   \<and> distinct (map movieId
        (allMoviesOf (videos (generateVideoIds (emptyPage\<lparr>videos := exampleCatalog\<rparr>)))))"
proof -
  have h: "distinct (map fst (videos (emptyPage\<lparr>videos := exampleCatalog\<rparr>)))"
    by (simp add: exampleCatalog_def)
  have ids: "map movieId
      (allMoviesOf (videos (generateVideoIds (emptyPage\<lparr>videos := exampleCatalog\<rparr>))))
       = [Some ''action-0'', Some ''action-1'', Some ''drama-0'']"
    by (simp add: generateVideoIds_def exampleCatalog_ids)
  from generateVideoIds_unique_positional_ids [OF h] h ids show ?thesis by blast
qed

text \<open>
  C2. With a movie playing and a favourites list without duplicates, two calls of
  \<^verbatim>\<open>toggleFavorite\<close> in a row (each taken with the state the call leaves, whether it
  returned or threw while re-rendering) flip the membership of the movie's id and flip it
  back: the list after the second call has the elements of the original list, each once. The
  order may differ, since an id that was removed comes back at the end.
\<close>

theorem toggleFavorite_twice_restores:
  assumes "currentPlayingMovie s = Some movie" and "distinct (favorites s)"
  shows "(jsid movie \<in> set (favorites (final (toggleFavorite env s)))
            \<longleftrightarrow> jsid movie \<notin> set (favorites s))
    \<and> (jsid movie \<in> set (favorites (final (toggleFavorite env (final (toggleFavorite env s)))))
            \<longleftrightarrow> jsid movie \<in> set (favorites s))
    \<and> set (favorites (final (toggleFavorite env (final (toggleFavorite env s)))))
         = set (favorites s)
    \<and> distinct (favorites (final (toggleFavorite env (final (toggleFavorite env s)))))
    \<and> mset (favorites (final (toggleFavorite env (final (toggleFavorite env s)))))
         = mset (favorites s)"
proof -
  let ?i = "jsid movie" and ?v = "version env"
  let ?s1 = "final (toggleFavorite env s)"
  let ?s2 = "final (toggleFavorite env ?s1)"
  have f1: "favorites ?s1 = toggled ?v ?i (favorites s)"
    and p1: "currentPlayingMovie ?s1 = Some movie"
    using toggleFavorite_fields [OF assms(1)] by simp_all
  have f2: "favorites ?s2 = toggled ?v ?i (toggled ?v ?i (favorites s))"
    using toggleFavorite_fields(1) [OF p1] f1 by simp
  have d1: "distinct (favorites ?s1)"
    unfolding f1 using assms(2) by (rule toggled_distinct)
  have d2: "distinct (favorites ?s2)"
    unfolding f2 using assms(2) by (intro toggled_distinct)
  have m1: "?i \<in> set (favorites ?s1) \<longleftrightarrow> ?i \<notin> set (favorites s)"
    unfolding f1 using assms(2) by (rule toggled_member)
  have set2: "set (favorites ?s2) = set (favorites s)"
    unfolding f2 using assms(2) by (rule toggled_twice_set)
  then have m2: "?i \<in> set (favorites ?s2) \<longleftrightarrow> ?i \<in> set (favorites s)" by simp
  from set2 d2 assms(2) have "mset (favorites ?s2) = mset (favorites s)"
    by (simp add: set_eq_iff_mset_eq_distinct)
  with m1 m2 set2 d2 show ?thesis by blast
qed

theorem toggleFavorite_twice_restores_witness:
  "currentPlayingMovie twoFavorites = Some movieA
   \<and> distinct (favorites twoFavorites)
   \<and> favorites (final (toggleFavorite (exampleEnv Part000) twoFavorites)) = [Str ''drama-0'']
   \<and> favorites (final (toggleFavorite (exampleEnv Part000)
        (final (toggleFavorite (exampleEnv Part000) twoFavorites))))
        = [Str ''drama-0'', Str ''action-0'']
   \<and> set (favorites (final (toggleFavorite (exampleEnv Part000)
        (final (toggleFavorite (exampleEnv Part000) twoFavorites)))))
        = set (favorites twoFavorites)"
proof -
  let ?env = "exampleEnv Part000"
  have p: "currentPlayingMovie twoFavorites = Some movieA"
    and d: "distinct (favorites twoFavorites)"
    by (simp_all add: twoFavorites_fields)
  have f1: "favorites (final (toggleFavorite ?env twoFavorites)) = [Str ''drama-0'']"
    by (simp add: toggleFavorite_fields [OF p] toggled_def jsid_movieA twoFavorites_fields
        exampleEnv_fields)
  have p1: "currentPlayingMovie (final (toggleFavorite ?env twoFavorites)) = Some movieA"
    by (simp add: toggleFavorite_fields [OF p])
  have f2: "favorites (final (toggleFavorite ?env (final (toggleFavorite ?env twoFavorites))))
      = [Str ''drama-0'', Str ''action-0'']"
    by (simp add: toggleFavorite_fields [OF p1] f1 toggled_def jsid_movieA exampleEnv_fields)
  from toggleFavorite_twice_restores [OF p d, of ?env] p d f1 f2 show ?thesis by blast
qed

text \<open>
  C3. \<^verbatim>\<open>playVideo\<close> with an id that no movie of the catalog has returns after it has
  reported that the movie was not found (a console line in \<^verbatim>\<open>script.js\<close>, the modal alert in
  \<^verbatim>\<open>part_000\<close>); \<^verbatim>\<open>currentPlayingMovie\<close> is as before, whatever it was, and so is the
  rest of the state.
\<close>

theorem playVideo_unknown_id:
  assumes "\<forall>m \<in> set (allMoviesOf (videos s)). movieId m \<noteq> Some movieIdArg"
  shows "\<exists>s'. playVideo env movieIdArg s = Done s'
    \<and> currentPlayingMovie s' = currentPlayingMovie s
    \<and> (version env = ScriptJs \<longrightarrow>
         s' = s\<lparr>console := console s @ [''Movie not found: '' @ movieIdArg]\<rparr>)
    \<and> (version env = Part000 \<longrightarrow> s' = s\<lparr>alert := Some (Some ''Error'', MovieNotFound)\<rparr>)"
proof -
  from assms have "findMovieById (videos s) (Str movieIdArg) = None"
    by (simp add: findMovieById_None jsid_Str)
  then show ?thesis
    by (cases "version env") (simp_all add: playVideo_def logLine_def showCustomAlert_def)
qed

theorem playVideo_unknown_id_witness:
  "Some ''missing-99'' \<notin> set (map movieId (allMoviesOf (videos loadedPage)))
   \<and> currentPlayingMovie (final (playVideo (exampleEnv ScriptJs) ''missing-99'' loadedPage))
       = Some movieA
   \<and> console (final (playVideo (exampleEnv ScriptJs) ''missing-99'' loadedPage))
       = [''Movie not found: missing-99'']
   \<and> currentPlayingMovie (final (playVideo (exampleEnv Part000) ''missing-99'' loadedPage))
       = Some movieA
   \<and> alert (final (playVideo (exampleEnv Part000) ''missing-99'' loadedPage))
       = Some (Some ''Error'', MovieNotFound)"
proof -
  have absent: "Some ''missing-99'' \<notin> set (map movieId (allMoviesOf (videos loadedPage)))"
    by (simp add: loadedPage_fields exampleCatalog_ids)
  then have h: "\<forall>m \<in> set (allMoviesOf (videos loadedPage)). movieId m \<noteq> Some ''missing-99''"
    by (metis image_eqI list.set_map)
  from playVideo_unknown_id [OF h, of "exampleEnv ScriptJs"]
  obtain s1 where s1: "playVideo (exampleEnv ScriptJs) ''missing-99'' loadedPage = Done s1"
    "s1 = loadedPage\<lparr>console := console loadedPage @ [''Movie not found: '' @ ''missing-99'']\<rparr>"
    by (auto simp: exampleEnv_def)
  from playVideo_unknown_id [OF h, of "exampleEnv Part000"]
  obtain s2 where s2: "playVideo (exampleEnv Part000) ''missing-99'' loadedPage = Done s2"
    "s2 = loadedPage\<lparr>alert := Some (Some ''Error'', MovieNotFound)\<rparr>"
    by (auto simp: exampleEnv_def)
  from absent s1 s2 show ?thesis by (simp add: loadedPage_fields)
qed

text \<open>
  C4, as the code has it. In \<^verbatim>\<open>part_000\<close>, \<^verbatim>\<open>initializeApp\<close> assigns the ids right
  after the load, before it reads the settings and the favourites and before it renders:
  in the state it leaves, also when a later step throws, the catalog is the loaded one
  with every movie carrying the id of its position, and when it returns, every card of the
  first rendering is the card of such a movie.
\<close>

theorem initializeApp_assigns_ids_first:
  assumes "version env = Part000"
  shows "videos (final (initializeApp env (Document (Some vs) ts) s)) = generateVideoIdsCat vs
    \<and> (\<forall>k < length vs. \<forall>index < length (snd (vs ! k)).
          movieId (snd (videos (final (initializeApp env (Document (Some vs) ts) s)) ! k) ! index)
            = Some (fst (vs ! k) @ ''-'' @ decimal index))
    \<and> (\<forall>s'. initializeApp env (Document (Some vs) ts) s = Done s' \<longrightarrow>
          (\<forall>m fav label. Card m fav label \<in> set (moviesContainer s') \<longrightarrow>
             m \<in> set (allMoviesOf (generateVideoIdsCat vs))))"
proof -
  let ?r = "initializeApp env (Document (Some vs) ts) s"
  have v: "videos (final ?r) = generateVideoIdsCat vs"
    using assms by (simp add: initializeApp_videos loadDataFromJSON_Document)
  have ids: "\<forall>k < length vs. \<forall>index < length (snd (vs ! k)).
          movieId (snd (videos (final ?r) ! k) ! index)
            = Some (fst (vs ! k) @ ''-'' @ decimal index)"
    unfolding v by (simp add: generateVideoIdsCat_nth assignFrom_nth)
  have cards: "\<forall>s'. ?r = Done s' \<longrightarrow>
          (\<forall>m fav label. Card m fav label \<in> set (moviesContainer s') \<longrightarrow>
             m \<in> set (allMoviesOf (generateVideoIdsCat vs)))"
  proof (intro allI impI)
    fix s' m fav label
    assume d: "?r = Done s'" and c: "Card m fav label \<in> set (moviesContainer s')"
    from d v have "videos s' = generateVideoIdsCat vs" by simp
    with initializeApp_cards [OF d c] show "m \<in> set (allMoviesOf (generateVideoIdsCat vs))"
      by simp
  qed
  from v ids cards show ?thesis by blast
qed

theorem initializeApp_assigns_ids_first_witness:
  "version (exampleEnv Part000) = Part000
   \<and> videos (final (initializeApp (exampleEnv Part000) exampleDocument emptyPage))
       = [(''action'', [movieA, movieB]), (''drama'', [movieC])]
   \<and> movieId (snd (videos (final (initializeApp (exampleEnv Part000) exampleDocument emptyPage))
        ! 1) ! 0) = Some ''drama-0''
   \<and> initializeApp (exampleEnv Part000) exampleDocument emptyPage
       = Done (final (initializeApp (exampleEnv Part000) exampleDocument emptyPage))
   \<and> moviesContainer (final (initializeApp (exampleEnv Part000) exampleDocument emptyPage))
       = [Heading ''Category: Action'', Card movieA False ''Now Playing'',
          Card movieB False ''Now Playing'']
   \<and> movieA \<in> set (allMoviesOf (generateVideoIdsCat exampleCatalog))"
proof -
  let ?env = "exampleEnv Part000"
  let ?r = "initializeApp ?env exampleDocument emptyPage"
  have ver: "version ?env = Part000" by (simp add: exampleEnv_fields)
  note general = initializeApp_assigns_ids_first
    [OF ver, of exampleCatalog "Some (map_of [(''english'', exampleTable)])" emptyPage,
     folded exampleDocument_def]
  from general have v: "videos (final ?r) = [(''action'', [movieA, movieB]), (''drama'', [movieC])]"
    by (simp add: exampleCatalog_generated)
  have k: "(1::nat) < length exampleCatalog" and i: "(0::nat) < length (snd (exampleCatalog ! 1))"
    by (simp_all add: exampleCatalog_def)
  from general k i
  have "movieId (snd (videos (final ?r) ! 1) ! 0)
      = Some (fst (exampleCatalog ! 1) @ ''-'' @ decimal 0)" by blast
  then have id: "movieId (snd (videos (final ?r) ! 1) ! 0) = Some ''drama-0''"
    by (simp add: exampleCatalog_def decimal.simps digit_table)
  have u: "?r = changeNav ?env Home
      (started\<lparr>mainTitle := Some ''WY MovieBox'', currentTitle := Some ''Select a movie''\<rparr>)"
    by (simp add: initializeApp_def Let_def exampleEnv_fields [of Part000] started_reached
        applySettings_started)
  have t: "tbl (translationTable (started\<lparr>mainTitle := Some ''WY MovieBox'',
        currentTitle := Some ''Select a movie''\<rparr>))
      (language (currentSettings (started\<lparr>mainTitle := Some ''WY MovieBox'',
        currentTitle := Some ''Select a movie''\<rparr>))) = Some exampleTable"
    by (simp add: started_fields)
  from changeNav_Done [OF t, of ?env Home] u have d: "?r = Done (final ?r)" by auto
  from changeNav_started u
  have c: "moviesContainer (final ?r)
       = [Heading ''Category: Action'', Card movieA False ''Now Playing'',
          Card movieB False ''Now Playing'']" by simp
  then have "Card movieA False ''Now Playing'' \<in> set (moviesContainer (final ?r))" by simp
  with general d have m: "movieA \<in> set (allMoviesOf (generateVideoIdsCat exampleCatalog))"
    by blast
  from ver v id d c m show ?thesis by (simp only: simp_thms)
qed

text \<open>
  C4 as stated fails for \<^verbatim>\<open>script.js\<close>, which has no id assignment: after its start-up
  with the example document the movies have no id and no id resolves.
\<close>

theorem startup_without_ids_counterexample:
  "videos (final (startup (exampleEnv ScriptJs) exampleDocument emptyPage)) = exampleCatalog
   \<and> map movieId (allMoviesOf (videos (final (startup (exampleEnv ScriptJs) exampleDocument
        emptyPage)))) = [None, None, None]
   \<and> findMovieById (videos (final (startup (exampleEnv ScriptJs) exampleDocument emptyPage)))
        (Str ''action-0'') = None"
proof -
  have v: "videos (final (startup (exampleEnv ScriptJs) exampleDocument emptyPage))
      = exampleCatalog"
    unfolding exampleDocument_def
    by (rule startup_ScriptJs_videos) (simp add: exampleEnv_fields)
  show ?thesis
    unfolding v
    by (simp add: exampleCatalog_def allMoviesOf_def rawMovie_def jsid_def)
qed

text \<open>
  C5. The trending selection is the concatenation of the arrays of all categories, in the
  iteration order of \<^verbatim>\<open>videos\<close>, cut down to its last ten entries: it is a suffix of the
  concatenation, of length ten or of the whole length when that is smaller. For the
  example catalog with its ids assigned it is \<open>action-0\<close>, \<open>action-1\<close>, \<open>drama-0\<close>.
\<close>

theorem trendingMovies_last_ten:
  "trendingMovies vs = drop (length (concat (map snd vs)) - 10) (concat (map snd vs))
   \<and> (\<exists>older. concat (map snd vs) = older @ trendingMovies vs)
   \<and> length (trendingMovies vs) = min 10 (length (concat (map snd vs)))
   \<and> map movieId (trendingMovies (generateVideoIdsCat exampleCatalog)) =
       [Some ''action-0'', Some ''action-1'', Some ''drama-0'']"
proof -
  let ?all = "concat (map snd vs)"
  have sel: "trendingMovies vs = drop (length ?all - 10) ?all"
    by (simp add: trendingMovies_def sliceFrom_def foldl_concat_acc Let_def nat_diff_distrib' max_def)
  have "?all = take (length ?all - 10) ?all @ trendingMovies vs"
    unfolding sel by simp
  then have ex: "\<exists>older. ?all = older @ trendingMovies vs" ..
  have len: "length (trendingMovies vs) = min 10 (length ?all)"
    unfolding sel by simp
  have example: "map movieId (trendingMovies (generateVideoIdsCat exampleCatalog)) =
       [Some ''action-0'', Some ''action-1'', Some ''drama-0'']"
    by (simp add: exampleCatalog_def generateVideoIdsCat_def trendingMovies_def sliceFrom_def
        rawMovie_def decimal.simps digit_table)
  from sel ex len example show ?thesis by blast
qed

text \<open>
  C6. The favourites block of \<^verbatim>\<open>initializeApp\<close> is a total function of the storage: its
  \<^verbatim>\<open>catch\<close> takes every throw of \<^verbatim>\<open>JSON.parse\<close>. A missing entry, a text that does not
  parse and a text that parses to something other than an array all give the empty list; a
  list that is not empty is the array the stored text parses to. Nothing but the favourites
  (and, in \<^verbatim>\<open>script.js\<close>, the console) changes.
\<close>

theorem loadFavorites_fallback:
  "(storage s ''favorites'' = None \<longrightarrow> favorites (loadFavorites env s) = [])
   \<and> (\<forall>stored. storage s ''favorites'' = Some stored \<and> jsonParse env stored = None
         \<longrightarrow> favorites (loadFavorites env s) = [])
   \<and> (\<forall>stored j. storage s ''favorites'' = Some stored \<and> jsonParse env stored = Some j
           \<and> (\<forall>xs. j \<noteq> Arr xs)
         \<longrightarrow> favorites (loadFavorites env s) = [])
   \<and> (favorites (loadFavorites env s) \<noteq> [] \<longrightarrow>
         (\<exists>stored. storage s ''favorites'' = Some stored
            \<and> jsonParse env stored = Some (Arr (favorites (loadFavorites env s)))))
   \<and> (\<forall>stored xs. storage s ''favorites'' = Some stored \<and> stored \<noteq> []
           \<and> jsonParse env stored = Some (Arr xs)
         \<longrightarrow> favorites (loadFavorites env s) = xs)
   \<and> (\<exists>favs lines. loadFavorites env s = s\<lparr>favorites := favs, console := console s @ lines\<rparr>)"
proof (intro conjI allI impI)
  show "favorites (loadFavorites env s) = []" if "storage s ''favorites'' = None"
    using that by (simp add: loadFavorites_def parseFavorites_def)
next
  fix stored assume "storage s ''favorites'' = Some stored \<and> jsonParse env stored = None"
  then show "favorites (loadFavorites env s) = []"
    by (cases "version env") (simp_all add: loadFavorites_def parseFavorites_def logLine_def)
next
  fix stored j
  assume "storage s ''favorites'' = Some stored \<and> jsonParse env stored = Some j \<and> (\<forall>xs. j \<noteq> Arr xs)"
  then show "favorites (loadFavorites env s) = []"
    by (cases j) (simp_all add: loadFavorites_def parseFavorites_def)
next
  assume ne: "favorites (loadFavorites env s) \<noteq> []"
  show "\<exists>stored. storage s ''favorites'' = Some stored
      \<and> jsonParse env stored = Some (Arr (favorites (loadFavorites env s)))"
  proof (cases "storage s ''favorites''")
    case None
    with ne show ?thesis by (simp add: loadFavorites_def parseFavorites_def)
  next
    case (Some stored)
    show ?thesis
    proof (cases "jsonParse env stored")
      case None
      with Some ne show ?thesis
        by (cases "version env")
          (simp_all add: loadFavorites_def parseFavorites_def logLine_def split: if_splits)
    next
      case parsed: (Some j)
      with Some ne show ?thesis
        by (cases j) (simp_all add: loadFavorites_def parseFavorites_def split: if_splits)
    qed
  qed
next
  fix stored xs
  assume "storage s ''favorites'' = Some stored \<and> stored \<noteq> [] \<and> jsonParse env stored = Some (Arr xs)"
  then show "favorites (loadFavorites env s) = xs"
    by (simp add: loadFavorites_def parseFavorites_def)
next
  show "\<exists>favs lines. loadFavorites env s = s\<lparr>favorites := favs, console := console s @ lines\<rparr>"
  proof (cases "parseFavorites env (storage s ''favorites'')")
    case None
    show ?thesis
    proof (cases "version env")
      case ScriptJs
      with None have "loadFavorites env s = s\<lparr>favorites := [], console := console s @
          [''Error parsing favorites from localStorage, resetting.'']\<rparr>"
        by (simp add: loadFavorites_def logLine_def)
      then show ?thesis by blast
    next
      case Part000
      with None have "loadFavorites env s = s\<lparr>favorites := [], console := console s @ []\<rparr>"
        by (simp add: loadFavorites_def)
      then show ?thesis by blast
    qed
  next
    case (Some favs)
    then have "loadFavorites env s = s\<lparr>favorites := favs, console := console s @ []\<rparr>"
      by (simp add: loadFavorites_def)
    then show ?thesis by blast
  qed
qed

theorem loadFavorites_fallback_witness:
  \<open>storage emptyPage ''favorites'' = None
   \<and> favorites (loadFavorites (exampleEnv Part000) emptyPage) = []
   \<and> jsonParse (exampleEnv ScriptJs) ''not json'' = None
   \<and> favorites (loadFavorites (exampleEnv ScriptJs) (withStoredFavorites ''not json'')) = []
   \<and> jsonParse (exampleEnv Part000) ''{}'' = Some (Obj [])
   \<and> favorites (loadFavorites (exampleEnv Part000) (withStoredFavorites ''{}'')) = []
   \<and> jsonParse (exampleEnv Part000) ''["gone-7","action-1"]''
        = Some (Arr [Str ''gone-7'', Str ''action-1''])
   \<and> favorites (loadFavorites (exampleEnv Part000)
        (withStoredFavorites ''["gone-7","action-1"]'')) = [Str ''gone-7'', Str ''action-1'']\<close>
proof -
  have missing: "storage emptyPage ''favorites'' = None" by (simp add: emptyPage_def)
  from loadFavorites_fallback [of emptyPage "exampleEnv Part000"] missing
  have a: "favorites (loadFavorites (exampleEnv Part000) emptyPage) = []" by blast
  have p1: "jsonParse (exampleEnv ScriptJs) ''not json'' = None"
    by (simp add: exampleEnv_fields exampleParse_values)
  from loadFavorites_fallback [of "withStoredFavorites ''not json''" "exampleEnv ScriptJs"]
    withStoredFavorites_storage [of "''not json''"] p1
  have b: "favorites (loadFavorites (exampleEnv ScriptJs) (withStoredFavorites ''not json'')) = []"
    by blast
  have p2: "jsonParse (exampleEnv Part000) ''{}'' = Some (Obj [])"
    by (simp add: exampleEnv_fields exampleParse_values)
  have "\<forall>xs. Obj [] \<noteq> Arr xs" by simp
  with loadFavorites_fallback [of "withStoredFavorites ''{}''" "exampleEnv Part000"]
    withStoredFavorites_storage [of "''{}''"] p2
  have c: "favorites (loadFavorites (exampleEnv Part000) (withStoredFavorites ''{}'')) = []"
    by blast
  have p3: \<open>jsonParse (exampleEnv Part000) ''["gone-7","action-1"]''
        = Some (Arr [Str ''gone-7'', Str ''action-1''])\<close>
    by (simp add: exampleEnv_fields exampleParse_values)
  have ne: \<open>''["gone-7","action-1"]'' \<noteq> []\<close> by simp
  from loadFavorites_fallback
    [of \<open>withStoredFavorites ''["gone-7","action-1"]''\<close> "exampleEnv Part000"]
    withStoredFavorites_storage [of \<open>''["gone-7","action-1"]''\<close>] p3 ne
  have d: \<open>favorites (loadFavorites (exampleEnv Part000)
        (withStoredFavorites ''["gone-7","action-1"]'')) = [Str ''gone-7'', Str ''action-1'']\<close>
    by blast
  from missing a p1 b p2 c p3 d show ?thesis by (simp only: simp_thms)
qed

text \<open>
  C7, as the code has it. With a movie playing, \<^verbatim>\<open>toggleFavorite\<close> appends the movie's id
  when the list does not hold it; when it does, \<^verbatim>\<open>script.js\<close> removes every occurrence and
  \<^verbatim>\<open>part_000\<close> the first one. The new list is written to the storage unless
  \<^verbatim>\<open>setItem\<close> throws; then the storage keeps what it had and the console gets the line of
  the \<^verbatim>\<open>catch\<close>. The function returns no value. For an id that is truthy the favourite
  button shows whether the new list holds the id; for a falsy id \<^verbatim>\<open>script.js\<close> leaves the
  button as it was and \<^verbatim>\<open>part_000\<close> empties it. On a list without duplicates the new
  membership is the opposite of the membership before.
\<close>

theorem toggleFavorite_effect:
  assumes "currentPlayingMovie s = Some movie"
  shows "favorites (final (toggleFavorite env s)) =
       (if jsid movie \<in> set (favorites s)
        then (case version env of
                ScriptJs \<Rightarrow> filter (\<lambda>x. x \<noteq> jsid movie) (favorites s)
              | Part000 \<Rightarrow> remove1 (jsid movie) (favorites s))
        else favorites s @ [jsid movie])
    \<and> storage (final (toggleFavorite env s)) =
       (if setItemThrows env (storage s) ''favorites''
             (jsonStringify env (Arr (favorites (final (toggleFavorite env s)))))
        then storage s
        else (storage s)(''favorites'' \<mapsto>
               jsonStringify env (Arr (favorites (final (toggleFavorite env s))))))
    \<and> console (final (toggleFavorite env s)) =
       (if setItemThrows env (storage s) ''favorites''
             (jsonStringify env (Arr (favorites (final (toggleFavorite env s)))))
        then console s @ [case version env of
                            ScriptJs \<Rightarrow> ''Error saving favorites to localStorage:''
                          | Part000 \<Rightarrow> ''Error saving favorites:'']
        else console s)
    \<and> favBtnFilled (final (toggleFavorite env s)) =
       (if truthy (jsid movie)
        then jsid movie \<in> set (favorites (final (toggleFavorite env s)))
        else version env = ScriptJs \<and> favBtnFilled s)
    \<and> (distinct (favorites s) \<longrightarrow>
         (jsid movie \<in> set (favorites (final (toggleFavorite env s)))
            \<longleftrightarrow> jsid movie \<notin> set (favorites s)))"
proof -
  have f: "favorites (final (toggleFavorite env s))
      = toggled (version env) (jsid movie) (favorites s)"
    by (rule toggleFavorite_fields [OF assms])
  show ?thesis
    unfolding f toggleFavorite_fields(4,5) [OF assms] toggleFavorite_console [OF assms]
    by (simp add: toggled_member) (simp add: toggled_def)
qed

theorem toggleFavorite_effect_witness:
  \<open>currentPlayingMovie loadedPage = Some movieA
   \<and> favorites (final (toggleFavorite (exampleEnv ScriptJs) loadedPage)) = [Str ''action-0'']
   \<and> storage (final (toggleFavorite (exampleEnv ScriptJs) loadedPage)) ''favorites''
        = Some ''["action-0"]''
   \<and> console (final (toggleFavorite (exampleEnv ScriptJs) loadedPage)) = []
   \<and> favBtnFilled (final (toggleFavorite (exampleEnv ScriptJs) loadedPage))
   \<and> console (final (toggleFavorite (fullStorageEnv Part000) loadedPage))
        = [''Error saving favorites:'']
   \<and> currentPlayingMovie twoFavorites = Some movieA
   \<and> favorites (final (toggleFavorite (exampleEnv Part000) twoFavorites)) = [Str ''drama-0'']
   \<and> storage (final (toggleFavorite (exampleEnv Part000) twoFavorites)) ''favorites''
        = Some ''["drama-0"]''
   \<and> \<not> favBtnFilled (final (toggleFavorite (exampleEnv Part000) twoFavorites))
   \<and> currentPlayingMovie blankIdPlaying = Some blankId
   \<and> favorites (final (toggleFavorite (exampleEnv ScriptJs) blankIdPlaying)) = [Str '''']
   \<and> \<not> favBtnFilled (final (toggleFavorite (exampleEnv ScriptJs) blankIdPlaying))
   \<and> \<not> favBtnFilled (final (toggleFavorite (exampleEnv Part000) blankIdPlaying))\<close>
proof -
  have p: "currentPlayingMovie loadedPage = Some movieA" by (simp add: loadedPage_fields)
  have r: "currentPlayingMovie twoFavorites = Some movieA" by (simp add: twoFavorites_fields)
  from toggleFavorite_effect [OF r, of "exampleEnv Part000"]
  have e: \<open>favorites (final (toggleFavorite (exampleEnv Part000) twoFavorites)) = [Str ''drama-0'']
     \<and> storage (final (toggleFavorite (exampleEnv Part000) twoFavorites)) ''favorites''
        = Some ''["drama-0"]''
     \<and> \<not> favBtnFilled (final (toggleFavorite (exampleEnv Part000) twoFavorites))\<close>
    by (simp add: jsid_movieA twoFavorites_fields exampleEnv_fields exampleStringify_def
        quoted_def)
  have q: "currentPlayingMovie blankIdPlaying = Some blankId"
    by (simp add: blankIdPlaying_fields)
  from toggleFavorite_effect [OF p, of "exampleEnv ScriptJs"]
  have a: \<open>favorites (final (toggleFavorite (exampleEnv ScriptJs) loadedPage)) = [Str ''action-0'']
     \<and> storage (final (toggleFavorite (exampleEnv ScriptJs) loadedPage)) ''favorites''
        = Some ''["action-0"]''
     \<and> console (final (toggleFavorite (exampleEnv ScriptJs) loadedPage)) = []
     \<and> favBtnFilled (final (toggleFavorite (exampleEnv ScriptJs) loadedPage))\<close>
    by (simp add: jsid_movieA loadedPage_fields exampleEnv_fields exampleStringify_def
        quoted_def)
  from toggleFavorite_effect [OF p, of "fullStorageEnv Part000"]
  have b: "console (final (toggleFavorite (fullStorageEnv Part000) loadedPage))
        = [''Error saving favorites:'']"
    by (simp add: jsid_movieA loadedPage_fields exampleEnv_fields)
  from toggleFavorite_effect [OF q, of "exampleEnv ScriptJs"]
  have c: "favorites (final (toggleFavorite (exampleEnv ScriptJs) blankIdPlaying)) = [Str '''']
     \<and> \<not> favBtnFilled (final (toggleFavorite (exampleEnv ScriptJs) blankIdPlaying))"
    by (simp add: blankIdPlaying_fields exampleEnv_fields)
  from toggleFavorite_effect [OF q, of "exampleEnv Part000"]
  have d: "\<not> favBtnFilled (final (toggleFavorite (exampleEnv Part000) blankIdPlaying))"
    by (simp add: blankIdPlaying_fields exampleEnv_fields)
  from p q r a b c d e show ?thesis by (simp only: simp_thms)
qed

text \<open>
  C7 as stated fails where the storage refuses the write: the id is in the list in memory
  and nothing is stored.
\<close>

theorem toggleFavorite_persist_counterexample:
  "currentPlayingMovie loadedPage = Some movieA
   \<and> favorites loadedPage = []
   \<and> favorites (final (toggleFavorite (fullStorageEnv Part000) loadedPage)) = [Str ''action-0'']
   \<and> storage (final (toggleFavorite (fullStorageEnv Part000) loadedPage)) ''favorites'' = None
   \<and> favorites (final (toggleFavorite (fullStorageEnv ScriptJs) loadedPage)) = [Str ''action-0'']
   \<and> storage (final (toggleFavorite (fullStorageEnv ScriptJs) loadedPage)) ''favorites'' = None"
proof -
  have p: "currentPlayingMovie loadedPage = Some movieA" by (simp add: loadedPage_fields)
  show ?thesis
    by (simp add: toggleFavorite_fields [OF p] toggled_def jsid_movieA loadedPage_fields
        exampleEnv_fields)
qed

text \<open>
  C8: when the write of \<^verbatim>\<open>saveSettings\<close> fails the preferences in memory and the active
  tab stay as they were, and when it goes through the preferences take the submitted
  values and the navigation returns to \<^verbatim>\<open>home\<close>. The code at a page whose document
  brought a Burmese table only and which shows the settings form, the form submitting
  English to a storage that accepts the write: in both revisions the submitted values are
  stored and are the preferences in memory, \<^verbatim>\<open>applySettings\<close> throws inside the \<^verbatim>\<open>try\<close>
  block on the table it does not find, the handler reports a failed save (the console line
  of \<^verbatim>\<open>script.js\<close>, the error alert of \<^verbatim>\<open>part_000\<close>), and \<^verbatim>\<open>changeNav\<close> is not reached: the
  settings view stays active.
\<close>

theorem saveSettings_failing_input:
  \<open>\<not> setItemThrows (exampleEnv ScriptJs) (storage burmeseOnly) ''userSettings''
        (jsonStringify (exampleEnv ScriptJs) (settingsJson englishLight))
   \<and> activeNav burmeseOnly = Some Profile
   \<and> storage (saveSettings (exampleEnv ScriptJs) englishLight burmeseOnly) ''userSettings''
        = Some ''{"name":"","email":"","theme":"light","language":"english"}''
   \<and> language (currentSettings (saveSettings (exampleEnv ScriptJs) englishLight burmeseOnly))
        = ''english''
   \<and> theme (currentSettings (saveSettings (exampleEnv ScriptJs) englishLight burmeseOnly))
        = ''light''
   \<and> activeNav (saveSettings (exampleEnv ScriptJs) englishLight burmeseOnly) = Some Profile
   \<and> console (saveSettings (exampleEnv ScriptJs) englishLight burmeseOnly)
        = [''Error saving settings to localStorage:'']
   \<and> storage (saveSettings (exampleEnv Part000) englishLight burmeseOnly) ''userSettings''
        = Some ''{"name":"","email":"","theme":"light","language":"english"}''
   \<and> language (currentSettings (saveSettings (exampleEnv Part000) englishLight burmeseOnly))
        = ''english''
   \<and> activeNav (saveSettings (exampleEnv Part000) englishLight burmeseOnly) = Some Profile
   \<and> alert (saveSettings (exampleEnv Part000) englishLight burmeseOnly)
        = Some (Some ''Error'', SettingsSaveError)\<close>
proof -
  have ok: "\<not> setItemThrows (exampleEnv v) (storage burmeseOnly) ''userSettings''
        (jsonStringify (exampleEnv v) (settingsJson englishLight))" for v
    by (simp add: exampleEnv_fields)
  have none: "tbl (translationTable burmeseOnly) (settingLanguage englishLight) = None"
    by (simp add: englishLight_fields burmeseOnly_fields)
  note eq = saveSettings_no_table [OF ok none]
  show ?thesis
    unfolding eq using ok [of ScriptJs]
    by (simp add: exampleEnv_fields logLine_def showCustomAlert_def written_def
        mergeSettings_def settingsJson_englishLight englishLight_fields burmeseOnly_fields
        burmeseOnly_def loadedPage_fields)
qed

text \<open>
  C9: with nothing playing, the favourite toggle signals its notice and changes no state.
  The code where the fetch has failed: the start-up of \<^verbatim>\<open>part_000\<close> ends in \<open>failedLoad\<close>,
  nothing playing, no favourites, the alert of the load error open. There, and on the page
  before any load, \<^verbatim>\<open>toggleFavorite\<close> of \<^verbatim>\<open>part_000\<close> throws on
  \<^verbatim>\<open>t.selectMovieForFavorite\<close> and opens no alert of its own; \<^verbatim>\<open>toggleFavorite\<close> of
  \<^verbatim>\<open>script.js\<close> gives its cue on the same page.
\<close>

theorem toggleFavorite_nothing_playing_failing_input:
  "startup (exampleEnv Part000) Unavailable emptyPage = Threw TypeError failedLoad
   \<and> currentPlayingMovie failedLoad = None
   \<and> favorites failedLoad = []
   \<and> alert failedLoad = Some (Some ''Error'', DataLoadError)
   \<and> toggleFavorite (exampleEnv Part000) failedLoad = Threw TypeError failedLoad
   \<and> currentPlayingMovie emptyPage = None
   \<and> alert emptyPage = None
   \<and> toggleFavorite (exampleEnv Part000) emptyPage = Threw TypeError emptyPage
   \<and> toggleFavorite (exampleEnv ScriptJs) emptyPage = Done (emptyPage\<lparr>favBtnShake := True\<rparr>)"
proof -
  have s: "startup (exampleEnv Part000) Unavailable emptyPage = Threw TypeError failedLoad"
    by (simp add: startup_def initializeApp_def exampleEnv_fields loadDataFromJSON_def
        generateVideoIds_def generateVideoIdsCat_def loadSettings_def loadFavorites_def
        parseFavorites_def applySettings_def applyLanguage_def andThen_def
        tbl_def tableOf_def objectPrototype_def defaultSettings_def
        logLine_def showCustomAlert_def emptyPage_def failedLoad_def)
  have p: "currentPlayingMovie failedLoad = None" "favorites failedLoad = []"
    "alert failedLoad = Some (Some ''Error'', DataLoadError)"
    by (simp_all add: failedLoad_def emptyPage_def)
  have t: "tbl (translationTable failedLoad) (language (currentSettings failedLoad)) = None"
    by (simp add: failedLoad_def emptyPage_def tbl_def tableOf_def
        objectPrototype_def defaultSettings_def)
  have a: "toggleFavorite (exampleEnv Part000) failedLoad = Threw TypeError failedLoad"
    by (simp add: toggleFavorite_def exampleEnv_fields t p)
  have q: "currentPlayingMovie emptyPage = None" "alert emptyPage = None"
    by (simp_all add: emptyPage_def)
  have b: "toggleFavorite (exampleEnv Part000) emptyPage = Threw TypeError emptyPage"
    by (simp add: toggleFavorite_def exampleEnv_fields tbl_emptyPage q)
  have c: "toggleFavorite (exampleEnv ScriptJs) emptyPage = Done (emptyPage\<lparr>favBtnShake := True\<rparr>)"
    by (simp add: toggleFavorite_def exampleEnv_fields q)
  from s p a q b c show ?thesis by (simp only: simp_thms)
qed

text \<open>
  C10: the favourites view shows the favourites that resolve to a movie of the catalog, in
  the stored order, and changes neither the list nor the storage. The code where the
  document has the catalog and no \<^verbatim>\<open>translations\<close> property, so that the load sets the
  tables to \<^verbatim>\<open>{}\<close>: the start-up of \<^verbatim>\<open>part_000\<close> ends in \<open>untranslated\<close>, whose one
  favourite resolves; \<^verbatim>\<open>displayFavorites\<close> empties the list region, throws on
  \<^verbatim>\<open>t.favoritesHeader\<close> and shows no card, whether called directly or by the favourites
  tab.
\<close>

theorem displayFavorites_failing_input:
  \<open>startup (exampleEnv Part000) (Document (Some exampleCatalog) None)
       (withStoredFavorites ''["action-0"]'') = Threw TypeError untranslated
   \<and> favorites untranslated = [Str ''action-0'']
   \<and> findMovieById (videos untranslated) (Str ''action-0'') = Some movieA
   \<and> displayFavorites untranslated = Threw TypeError (untranslated\<lparr>moviesContainer := []\<rparr>)
   \<and> moviesContainer (final (changeNav (exampleEnv Part000) Favorites untranslated)) = []
   \<and> moviesContainer (final (changeNav (exampleEnv ScriptJs) Favorites untranslated)) = []\<close>
proof -
  have s: \<open>startup (exampleEnv Part000) (Document (Some exampleCatalog) None)
       (withStoredFavorites ''["action-0"]'') = Threw TypeError untranslated\<close>
    by (simp add: startup_def initializeApp_def exampleEnv_fields loadDataFromJSON_def
        generateVideoIds_def loadSettings_def loadFavorites_def parseFavorites_def
        exampleParse_def applySettings_def applyLanguage_def andThen_def
        tbl_def tableOf_def objectPrototype_def defaultSettings_def
        logLine_def withStoredFavorites_def emptyPage_def untranslated_def defaultSettings_def)
  have v: "videos untranslated = generateVideoIdsCat exampleCatalog"
    and f: "favorites untranslated = [Str ''action-0'']"
    by (simp_all add: untranslated_def emptyPage_def)
  have r: "findMovieById (videos untranslated) (Str ''action-0'') = Some movieA"
    unfolding v by (simp add: find_examples)
  have t: "tbl (translationTable untranslated) (language (currentSettings untranslated)) = None"
    by (simp add: untranslated_def emptyPage_def tbl_def tableOf_def
        objectPrototype_def defaultSettings_def)
  have d: "displayFavorites untranslated = Threw TypeError (untranslated\<lparr>moviesContainer := []\<rparr>)"
    by (simp add: displayFavorites_def Let_def t)
  have n: "moviesContainer (final (changeNav (exampleEnv v) Favorites untranslated)) = []" for v
    by (simp add: changeNav_def displayFavorites_def Let_def t)
  from s f r d n [of Part000] n [of ScriptJs] show ?thesis by (simp only: simp_thms)
qed

end
